theory Spec2Isabelle
  imports Main "HOL-Library.Word"
begin

section \<open>Imagine: a pandoc filter that turns fenced code blocks into images or ascii art\<close>

text \<open>
  A shallow embedding of \<^verbatim>\<open>imagine.py\<close>. The program is Python 2 (print chevron,
  \<^verbatim>\<open>__metaclass__\<close>). Text and byte strings are both modelled as \<open>string\<close>: a text is
  read as its encoding in the file-system encoding, so that
  \<^verbatim>\<open>code.encode(sys.getfilesystemencoding())\<close> is the identity, and \<^verbatim>\<open>str\<close> of a
  printed argument never fails. The file system is a map from path strings to file contents,
  keyed by the path exactly as the program spells it; directories are not modelled, and a
  write either stores the whole content or changes nothing.
\<close>

subsection \<open>Python string helpers\<close>

text \<open>\<^verbatim>\<open>str.lower\<close> on the ASCII letters; every other character is left as it is.\<close>

definition lower_char :: "char \<Rightarrow> char" where
  "lower_char c =
     (case map_of (zip ''ABCDEFGHIJKLMNOPQRSTUVWXYZ'' ''abcdefghijklmnopqrstuvwxyz'') c of
        Some l \<Rightarrow> l
      | None \<Rightarrow> c)"

definition lower :: "string \<Rightarrow> string" where
  "lower s = map lower_char s"

text \<open>
  \<^verbatim>\<open>str.split()\<close> with no separator: maximal runs of non-whitespace characters, the
  whitespace being the six ASCII whitespace characters.
\<close>

definition isspace :: "char \<Rightarrow> bool" where
  "isspace c = (c \<in> set [CHR '' '', CHR 0x09, CHR 0x0A, CHR 0x0B, CHR 0x0C, CHR 0x0D])"

fun split_acc :: "string \<Rightarrow> string \<Rightarrow> string list" where
  "split_acc cur [] = (if cur = [] then [] else [cur])"
| "split_acc cur (c # cs) =
     (if isspace c then (if cur = [] then split_acc [] cs else cur # split_acc [] cs)
      else split_acc (cur @ [c]) cs)"

definition str_split :: "string \<Rightarrow> string list" where
  "str_split s = split_acc [] s"

text \<open>\<^verbatim>\<open>sep.join(xs)\<close>.\<close>

fun join :: "string \<Rightarrow> string list \<Rightarrow> string" where
  "join sep [] = []"
| "join sep [x] = x"
| "join sep (x # y # ys) = x @ sep @ join sep (y # ys)"

subsection \<open>The document model of pandocfilters\<close>

text \<open>
  A code block's value is \<^verbatim>\<open>[(Identity, [classes], [(key, val)]), code]\<close>. The key-value
  list keeps its order and its duplicates.
\<close>

type_synonym keyvals = "(string \<times> string) list"
type_synonym attr = "string \<times> string list \<times> keyvals"
type_synonym codec = "attr \<times> string"

datatype inline = pf_Str string | pf_Image attr "inline list" "string \<times> string"

datatype block = pf_Para "inline list" | pf_CodeBlock attr string

text \<open>
  What a handler gives back to the document walker: \<^verbatim>\<open>None\<close> (the element is kept), one
  block element (it replaces the element), or a list of block elements (they are spliced in).
\<close>

datatype retval = PyNone | Element block | Elements "block list"

text \<open>
  Modelled from the spec: \<^verbatim>\<open>pandocfilters.get_value\<close> is not under src/. As the comments
  of \<^verbatim>\<open>Handler.__init__\<close> say, it returns \<^verbatim>\<open>(value, new_keyval)\<close>, where the value is
  that of the last matching key in the list (the default when there is none) and
  \<^verbatim>\<open>new_keyval\<close> has all occurrences of the key removed. The default may be
  \<^verbatim>\<open>None\<close>, so values are options.
\<close>

definition get_value :: "keyvals \<Rightarrow> string \<Rightarrow> string option \<Rightarrow> string option \<times> keyvals" where
  "get_value kv key dflt =
     fold (\<lambda>(k, v) (val, res). if k = key then (Some v, res) else (val, res @ [(k, v)]))
       kv (dflt, [])"

text \<open>
  Modelled from the spec: \<^verbatim>\<open>pandocfilters.get_caption\<close> is not under src/. It pops the
  \<^verbatim>\<open>caption\<close> key; a caption present gives a one-word inline list and the title
  \<^verbatim>\<open>fig:\<close>.
\<close>

definition get_caption :: "keyvals \<Rightarrow> inline list \<times> string \<times> keyvals" where
  "get_caption kv =
     (let (val, res) = get_value kv ''caption'' None
      in case val of
           Some v \<Rightarrow> ([pf_Str v], ''fig:'', res)
         | None \<Rightarrow> ([], '''', res))"

text \<open>
  Modelled from the spec: \<^verbatim>\<open>pandocfilters.get_extension\<close> is not under src/. It looks the
  document format up among the alternates given by keyword and falls back to the default.
\<close>

definition get_extension :: "string \<Rightarrow> string \<Rightarrow> (string \<times> string) list \<Rightarrow> string" where
  "get_extension format dflt alternates =
     (case map_of alternates format of Some x \<Rightarrow> x | None \<Rightarrow> dflt)"

text \<open>
  Modelled from the spec: \<^verbatim>\<open>pandocfilters.get_filename4code\<close> is not under src/. The file
  name is the SHA-1 digest of the content, as 40 lowercase hexadecimal digits, in the
  directory \<^verbatim>\<open>module + "-images"\<close>. The digest function itself is a parameter. That the
  function also creates the directory and reports it on standard error is left out.
\<close>

definition hexchar :: "nat \<Rightarrow> char" where
  "hexchar n = ''0123456789abcdef'' ! n"

definition hexdigest :: "160 word \<Rightarrow> string" where
  "hexdigest d = map (\<lambda>i. hexchar (unat (take_bit 4 (drop_bit (4 * (39 - i)) d)))) [0..<40]"

definition get_filename4code :: "(string \<Rightarrow> 160 word) \<Rightarrow> string \<Rightarrow> string \<Rightarrow> string" where
  "get_filename4code sha module content = module @ ''-images'' @ ''/'' @ hexdigest (sha content)"

subsection \<open>The worker classes and their registry\<close>

datatype worker =
    Handler | Imagine | Figlet | Boxes | Protocol | PlotUtilPlot | PlotUtilsGraph | Pic2Plot
  | PlantUml | Mermaid | Ditaa | MscGen | BlockDiag | Graphviz

text \<open>The class attribute \<^verbatim>\<open>codecs\<close>: klass to cli-program.\<close>

fun codecs :: "worker \<Rightarrow> (string \<times> string) list" where
  "codecs Handler = []"
| "codecs Imagine = [(''imagine'', ''imagine'')]"
| "codecs Figlet = [(''figlet'', ''figlet'')]"
| "codecs Boxes = [(''boxes'', ''boxes'')]"
| "codecs Protocol = [(''protocol'', ''protocol'')]"
| "codecs PlotUtilPlot = [(''plot'', ''plot'')]"
| "codecs PlotUtilsGraph = [(''graph'', ''graph''), (''gnugraph'', ''graph'')]"
| "codecs Pic2Plot = [(''pic2plot'', ''pic2plot''), (''pic'', ''pic2plot'')]"
| "codecs PlantUml = [(''plantuml'', ''plantuml'')]"
| "codecs Mermaid = [(''mermaid'', ''mermaid'')]"
| "codecs Ditaa = [(''ditaa'', ''ditaa'')]"
| "codecs MscGen = [(''mscgen'', ''mscgen'')]"
| "codecs BlockDiag =
     (let progs = [''blockdiag'', ''seqdiag'', ''rackdiag'', ''nwdiag'', ''packetdiag'', ''actdiag'']
      in zip progs progs)"
| "codecs Graphviz =
     (let progs = [''dot'', ''neato'', ''twopi'', ''circo'', ''fdp'', ''sfdp'']
      in zip progs progs @ [(''graphviz'', ''dot'')])"

text \<open>The class attribute \<^verbatim>\<open>level\<close>: 2 unless the class overrides it.\<close>

fun level :: "worker \<Rightarrow> nat" where
  "level PlotUtilPlot = 9"
| "level Pic2Plot = 9"
| "level _ = 2"

text \<open>
  \<^verbatim>\<open>HandlerMeta.__init__\<close> runs once for each class, in the order the classes are defined,
  and stores the class under each of its codecs, lowercased. \<open>workers\<close> is the dictionary
  after the last class is defined.
\<close>

definition HandlerMeta_init :: "worker \<Rightarrow> (string \<rightharpoonup> worker) \<Rightarrow> (string \<rightharpoonup> worker)" where
  "HandlerMeta_init cls ws = fold (\<lambda>(klass, _) m. m(lower klass \<mapsto> cls)) (codecs cls) ws"

definition worker_classes :: "worker list" where
  "worker_classes =
     [Handler, Imagine, Figlet, Boxes, Protocol, PlotUtilPlot, PlotUtilsGraph, Pic2Plot,
      PlantUml, Mermaid, Ditaa, MscGen, BlockDiag, Graphviz]"

definition workers :: "string \<rightharpoonup> worker" where
  "workers = fold HandlerMeta_init worker_classes Map.empty"

subsection \<open>The world outside the program\<close>

text \<open>
  What \<^verbatim>\<open>subprocess.check_output(args, stderr=STDOUT)\<close> can do: the program runs and
  returns an exit status with its combined output (a non-zero status raises
  \<^verbatim>\<open>CalledProcessError\<close>, which carries the output), or it cannot be started
  (\<^verbatim>\<open>OSError\<close>).
\<close>

datatype proc = Returned nat string | NotStarted

text \<open>
  The environment is fixed during a run: what each external program does to the file system
  and prints, which paths can be written and removed, the SHA-1 function of
  \<^verbatim>\<open>hashlib\<close>, Python's \<^verbatim>\<open>str\<close> of a code block value, and the module's help text
  \<^verbatim>\<open>__doc__\<close>.
\<close>

record env =
  check_output :: "string list \<Rightarrow> (string \<rightharpoonup> string) \<Rightarrow> proc \<times> (string \<rightharpoonup> string)"
  can_write :: "string \<Rightarrow> bool"
  can_remove :: "string \<Rightarrow> bool"
  sha1 :: "string \<Rightarrow> 160 word"
  py_str :: "codec \<Rightarrow> string"
  doc :: "string"

text \<open>One argument of a call of \<^verbatim>\<open>msg\<close>, before \<^verbatim>\<open>str\<close> renders it.\<close>

datatype logitem =
    S string | N nat | L "string list" | W worker | A attr | C codec

text \<open>
  The state a run changes: the files, the class attribute \<^verbatim>\<open>klass\<close> of each worker
  class (unset classes inherit \<^verbatim>\<open>None\<close> from \<^verbatim>\<open>Handler\<close>), and the lines printed
  on standard error, each with the name of the class that printed it. \<open>calls\<close> is a
  history kept for the proofs only: every argument vector handed to
  \<^verbatim>\<open>check_output\<close> that started a program, with what came of it.
\<close>

record world =
  files :: "string \<rightharpoonup> string"
  klass :: "worker \<rightharpoonup> string"
  stderr :: "(worker \<times> logitem list) list"
  calls :: "(string list \<times> proc) list"

datatype error = NoCliCommand | OSError

definition isfile :: "world \<Rightarrow> string \<Rightarrow> bool" where
  "isfile w p = (files w p \<noteq> None)"

text \<open>\<^verbatim>\<open>os.remove\<close> and \<^verbatim>\<open>os.rename\<close>; \<open>None\<close> is the exception they raise.\<close>

definition os_remove :: "env \<Rightarrow> string \<Rightarrow> (string \<rightharpoonup> string) \<Rightarrow> (string \<rightharpoonup> string) option" where
  "os_remove e p fs = (if fs p \<noteq> None \<and> can_remove e p then Some (fs(p := None)) else None)"

definition os_rename :: "string \<Rightarrow> string \<Rightarrow> (string \<rightharpoonup> string) \<Rightarrow> (string \<rightharpoonup> string) option" where
  "os_rename src dst fs =
     (case fs src of Some b \<Rightarrow> Some ((fs(src := None))(dst \<mapsto> b)) | None \<Rightarrow> None)"

subsection \<open>The base class Handler\<close>

definition IMG_BASEDIR :: string where
  "IMG_BASEDIR = ''pd''"

text \<open>The attributes \<^verbatim>\<open>Handler.__init__\<close> sets on a worker built from a code block.\<close>

record handler =
  cls :: worker
  codec :: codec
  cmd_output :: string
  ident :: string
  classes :: "string list"
  keyvals :: keyvals
  code :: string
  caption :: "inline list"
  typef :: string
  options :: string
  prog :: string
  keep :: bool
  basename :: string
  fext :: string
  outfile :: string
  inpfile :: string
  codetxt :: string

text \<open>
  An instance is the dispatcher \<^verbatim>\<open>Handler(None)\<close>, whose constructor returns before it
  decodes anything, or a worker built from a code block.
\<close>

datatype obj = Handler_None | Instance handler

fun class_of :: "obj \<Rightarrow> worker" where
  "class_of Handler_None = Handler"
| "class_of (Instance h) = cls h"

text \<open>
  \<^verbatim>\<open>msg\<close>: a line is printed unless its level is above the level of the class. The
  line is kept as the class name and the arguments.
\<close>

definition msg :: "worker \<Rightarrow> nat \<Rightarrow> logitem list \<Rightarrow> world \<Rightarrow> world" where
  "msg c lvl a w = (if lvl > level c then w else w\<lparr>stderr := stderr w @ [(c, a)]\<rparr>)"

text \<open>
  \<^verbatim>\<open>write\<close>: nothing is written for zero bytes; a failure to open or write is logged
  and leaves the file system as it was.
\<close>

definition Handler_write :: "env \<Rightarrow> worker \<Rightarrow> string \<Rightarrow> string \<Rightarrow> string \<Rightarrow> world \<Rightarrow> bool \<times> world" where
  "Handler_write e c mode dta dst w =
     (if length dta = 0 then (False, msg c 3 [S ''skipped writing 0 bytes to'', S dst] w)
      else if can_write e dst
        then (True, msg c 3 [S ''wrote'', N (length dta), S ''bytes to'', S dst]
                      (w\<lparr>files := (files w)(dst \<mapsto> dta)\<rparr>))
        else (False, msg c 0 [S ''exception'']
                       (msg c 0 [S ''fail: could not write'', N (length dta), S ''bytes to'', S dst] w)))"

text \<open>
  \<^verbatim>\<open>__init__\<close> for a code block. \<^verbatim>\<open>self.prog if self.prog else ...\<close> takes the program
  of the class when \<^verbatim>\<open>prog\<close> is absent or empty. When there is none the constructor
  raises; the line it prints before is lost with the state.
\<close>

definition Handler_init :: "env \<Rightarrow> worker \<Rightarrow> codec \<Rightarrow> world \<Rightarrow> error + (handler \<times> world)" where
  "Handler_init e c cb w =
     (let ((ident0, klasses, kv0), code0) = cb;
          (caption0, typef0, kv1) = get_caption kv0;
          (options0, kv2) = get_value kv1 ''options'' (Some '''');
          (prog0, kv3) = get_value kv2 ''prog'' None;
          (keep0, kv4) = get_value kv3 ''keep'' (Some '''');
          prog1 = (if prog0 \<noteq> None \<and> prog0 \<noteq> Some '''' then prog0
                   else (case klass w c of Some k \<Rightarrow> map_of (codecs c) k | None \<Rightarrow> None))
      in case prog1 of
           None \<Rightarrow> Inl NoCliCommand
         | Some p \<Rightarrow>
             (let base = get_filename4code (sha1 e) IMG_BASEDIR (py_str e cb);
                  self = \<lparr>cls = c, codec = cb, cmd_output = '''', ident = ident0, classes = klasses,
                          keyvals = kv4, code = code0, caption = caption0, typef = typef0,
                          options = (case options0 of Some s \<Rightarrow> s | None \<Rightarrow> ''''),
                          prog = p,
                          keep = (lower (case keep0 of Some s \<Rightarrow> s | None \<Rightarrow> '''') = ''true''),
                          basename = base, fext = ''png'', outfile = base @ ''.'' @ ''png'',
                          inpfile = base @ ''.'' @ ''txt'', codetxt = code0\<rparr>
              in if \<not> isfile w (inpfile self)
                 then Inr (self, snd (Handler_write e c ''w'' (codetxt self) (inpfile self) w))
                 else Inr (self, w)))"

text \<open>\<^verbatim>\<open>fmt\<close>: the image file extension for the output document format.\<close>

definition fmt :: "handler \<Rightarrow> string \<Rightarrow> string \<Rightarrow> (string \<times> string) list \<Rightarrow> handler" where
  "fmt self f dflt specials =
     (let x = get_extension f dflt specials
      in self\<lparr>fext := x, outfile := basename self @ ''.'' @ x\<rparr>)"

definition Url :: "handler \<Rightarrow> inline" where
  "Url self = pf_Image (ident self, classes self, keyvals self) (caption self)
                (outfile self, typef self)"

text \<open>
  \<^verbatim>\<open>AnonCodeBlock\<close>: the original code block, written out as a fenced block inside an
  anonymous code block. It is built from \<^verbatim>\<open>self.codec\<close>, the block before any key was
  popped.
\<close>

definition AnonCodeBlock :: "handler \<Rightarrow> block" where
  "AnonCodeBlock self =
     (let ((ident0, klasses, kv), _) = codec self;
          id1 = (if ident0 \<noteq> [] then ''#'' @ ident0 else ident0);
          klasses1 = join '' '' (map (\<lambda>c. ''.'' @ c) klasses);
          kv1 = join '' '' (map (\<lambda>(k, v). k @ ''='' @ [CHR 0x22] @ v @ [CHR 0x22]) kv);
          attr1 = ''{'' @ join '' '' (filter (\<lambda>a. a \<noteq> []) [id1, klasses1, kv1]) @ ''}'';
          fence = replicate 3 (CHR 0x60)
      in pf_CodeBlock ('''', [], []) (fence @ attr1 @ [CHR 0x0A] @ code self @ [CHR 0x0A] @ fence))"

definition Para :: "handler \<Rightarrow> retval" where
  "Para self =
     (let r = pf_Para [Url self]
      in if keep self then Elements [AnonCodeBlock self, r] else Element r)"

definition CodeBlock :: "handler \<Rightarrow> attr \<Rightarrow> string \<Rightarrow> retval" where
  "CodeBlock self attr0 code0 =
     (let r = pf_CodeBlock attr0 code0
      in if keep self then Elements [AnonCodeBlock self, r] else Element r)"

text \<open>
  \<^verbatim>\<open>cmd\<close>: \<open>args\<close> is the whole argument vector, the program first. \<open>force\<close> is the
  keyword \<^verbatim>\<open>_force\<close>, which no caller in the program passes. The call
  \<^verbatim>\<open>self.msg('len self.output is', ...)\<close> prints nothing: its level is a string, and in
  Python 2 every string is greater than every number.
\<close>

definition cmd :: "env \<Rightarrow> bool \<Rightarrow> handler \<Rightarrow> string list \<Rightarrow> world
    \<Rightarrow> error + (bool \<times> handler \<times> world)" where
  "cmd e force self args w =
     (if isfile w (outfile self) \<and> \<not> force
      then Inr (True, self, msg (cls self) 1 [S ''exists:'', L args] w)
      else (case check_output e args (files w) of
              (Returned rc out, fs) \<Rightarrow>
                (let w1 = w\<lparr>files := fs, calls := calls w @ [(args, Returned rc out)]\<rparr>
                 in if rc = 0
                    then Inr (True, self\<lparr>cmd_output := out\<rparr>, msg (cls self) 1 [S ''ok:'', L args] w1)
                    else (let w2 = (case os_remove e (outfile self) (files w1) of
                                      Some fs1 \<Rightarrow> w1\<lparr>files := fs1\<rparr>
                                    | None \<Rightarrow> w1)
                          in Inr (False, self,
                                  msg (cls self) 0 [S '' '', S (prog self), S '':'', S out]
                                    (msg (cls self) 0 [S ''fail:'', L args] w2))))
            | (NotStarted, fs) \<Rightarrow> Inl OSError))"

text \<open>\<^verbatim>\<open>Handler.image\<close>, the default: the code block is kept as it is.\<close>

definition Handler_image :: "worker \<Rightarrow> world \<Rightarrow> retval \<times> world" where
  "Handler_image c w = (PyNone, msg c 3 [W c, S ''keeping CodeBlock as-is (default)''] w)"

subsection \<open>The worker classes\<close>

text \<open>
  Each \<^verbatim>\<open>image\<close> returns what the walker gets, the worker after the call and the world
  after the call. A method that falls off its end returns \<^verbatim>\<open>None\<close>. An exception that
  \<^verbatim>\<open>cmd\<close> does not catch goes through.
\<close>

definition Imagine_image :: "env \<Rightarrow> handler \<Rightarrow> string \<Rightarrow> world
    \<Rightarrow> error + (retval \<times> handler \<times> world)" where
  "Imagine_image e self f w = Inr (Element (pf_CodeBlock ('''', [''imagine''], []) (doc e)), self, w)"

definition Figlet_image :: "env \<Rightarrow> handler \<Rightarrow> string \<Rightarrow> world
    \<Rightarrow> error + (retval \<times> handler \<times> world)" where
  "Figlet_image e self f w =
     (let args = str_split (options self) @ [codetxt self]
      in case cmd e False self (prog self # args) w of
           Inl x \<Rightarrow> Inl x
         | Inr (ok, self1, w1) \<Rightarrow>
             if ok then Inr (CodeBlock self1 (fst (codec self1)) (cmd_output self1), self1, w1)
             else Inr (PyNone, self1, w1))"

definition Boxes_image :: "env \<Rightarrow> handler \<Rightarrow> string \<Rightarrow> world
    \<Rightarrow> error + (retval \<times> handler \<times> world)" where
  "Boxes_image e self f w =
     (let args = str_split (options self) @ [inpfile self]
      in case cmd e False self (prog self # args) w of
           Inl x \<Rightarrow> Inl x
         | Inr (ok, self1, w1) \<Rightarrow>
             if ok then Inr (CodeBlock self1 (fst (codec self1)) (cmd_output self1), self1, w1)
             else Inr (PyNone, self1, w1))"

definition Protocol_image :: "env \<Rightarrow> handler \<Rightarrow> string \<Rightarrow> world
    \<Rightarrow> error + (retval \<times> handler \<times> world)" where
  "Protocol_image e self f w =
     (let args = str_split (options self) @ [codetxt self]
      in case cmd e False self (prog self # args) w of
           Inl x \<Rightarrow> Inl x
         | Inr (ok, self1, w1) \<Rightarrow>
             if ok then Inr (CodeBlock self1 (fst (codec self1)) (cmd_output self1), self1, w1)
             else Inr (PyNone, self1, w1))"

text \<open>\<^verbatim>\<open>plot\<close> reads the code as the name of the file to convert.\<close>

definition PlotUtilPlot_image :: "env \<Rightarrow> handler \<Rightarrow> string \<Rightarrow> world
    \<Rightarrow> error + (retval \<times> handler \<times> world)" where
  "PlotUtilPlot_image e self f w =
     (let self0 = fmt self f ''png'' []
      in if \<not> isfile w (codetxt self0)
         then Inr (PyNone, self0,
                   msg (cls self0) 0 [S ''fail: cannot read file'', S (codetxt self0)] w)
         else
           (let args = str_split (options self0) @ [codetxt self0]
            in case cmd e False self0 (prog self0 # ''-T'' # fext self0 # args) w of
                 Inl x \<Rightarrow> Inl x
               | Inr (ok, self1, w1) \<Rightarrow>
                   if ok
                   then Inr (Para self1, self1,
                             snd (Handler_write e (cls self1) ''wb'' (cmd_output self1)
                                    (outfile self1) w1))
                   else Inr (PyNone, self1, w1)))"

definition PlotUtilsGraph_image :: "env \<Rightarrow> handler \<Rightarrow> string \<Rightarrow> world
    \<Rightarrow> error + (retval \<times> handler \<times> world)" where
  "PlotUtilsGraph_image e self f w =
     (let self0 = fmt self f ''png'' [];
          args = str_split (options self0) @ [inpfile self0]
      in case cmd e False self0 (prog self0 # ''-T'' # fext self0 # args) w of
           Inl x \<Rightarrow> Inl x
         | Inr (ok, self1, w1) \<Rightarrow>
             if ok
             then Inr (Para self1, self1,
                       snd (Handler_write e (cls self1) ''wb'' (cmd_output self1)
                              (outfile self1) w1))
             else Inr (PyNone, self1, w1))"

definition Pic2Plot_image :: "env \<Rightarrow> handler \<Rightarrow> string \<Rightarrow> world
    \<Rightarrow> error + (retval \<times> handler \<times> world)" where
  "Pic2Plot_image e self f w =
     (let self0 = fmt self f ''png'' [];
          args = str_split (options self0) @ [inpfile self0]
      in case cmd e False self0 (prog self0 # ''-T'' # fext self0 # args) w of
           Inl x \<Rightarrow> Inl x
         | Inr (ok, self1, w1) \<Rightarrow>
             if ok
             then Inr (Para self1, self1,
                       snd (Handler_write e (cls self1) ''wb'' (cmd_output self1)
                              (outfile self1) w1))
             else Inr (PyNone, self1, w1))"

definition PlantUml_image :: "env \<Rightarrow> handler \<Rightarrow> string \<Rightarrow> world
    \<Rightarrow> error + (retval \<times> handler \<times> world)" where
  "PlantUml_image e self f w =
     (let self0 = fmt self f ''png'' []
      in case cmd e False self0 [prog self0, ''-t'' @ fext self0, inpfile self0] w of
           Inl x \<Rightarrow> Inl x
         | Inr (ok, self1, w1) \<Rightarrow>
             if ok then Inr (Para self1, self1, w1) else Inr (PyNone, self1, w1))"

text \<open>
  \<^verbatim>\<open>mermaid\<close> writes \<^verbatim>\<open>filename.txt.png\<close>; the rename to the output name is tried and
  its failure ignored.
\<close>

definition Mermaid_image :: "env \<Rightarrow> handler \<Rightarrow> string \<Rightarrow> world
    \<Rightarrow> error + (retval \<times> handler \<times> world)" where
  "Mermaid_image e self f w =
     (let self0 = fmt self f ''png'' [];
          args = str_split (options self0) @ [inpfile self0]
      in case cmd e False self0 (prog self0 # ''-o'' # (IMG_BASEDIR @ ''-images'') # args) w of
           Inl x \<Rightarrow> Inl x
         | Inr (ok, self1, w1) \<Rightarrow>
             if ok
             then Inr (Para self1, self1,
                       (case os_rename (inpfile self1 @ ''.'' @ fext self1) (outfile self1)
                               (files w1) of
                          Some fs \<Rightarrow> w1\<lparr>files := fs\<rparr>
                        | None \<Rightarrow> w1))
             else Inr (PyNone, self1, w1))"

definition Ditaa_image :: "env \<Rightarrow> handler \<Rightarrow> string \<Rightarrow> world
    \<Rightarrow> error + (retval \<times> handler \<times> world)" where
  "Ditaa_image e self f w =
     (let self0 = fmt self f ''png'' []
      in case cmd e False self0
                [prog self0, inpfile self0, outfile self0, ''-T'', options self0] w of
           Inl x \<Rightarrow> Inl x
         | Inr (ok, self1, w1) \<Rightarrow>
             if ok then Inr (Para self1, self1, w1) else Inr (PyNone, self1, w1))"

definition MscGen_image :: "env \<Rightarrow> handler \<Rightarrow> string \<Rightarrow> world
    \<Rightarrow> error + (retval \<times> handler \<times> world)" where
  "MscGen_image e self f w =
     (let self0 = fmt self f ''png'' []
      in case cmd e False self0
                [prog self0, ''-T'', fext self0, ''-o'', outfile self0, inpfile self0] w of
           Inl x \<Rightarrow> Inl x
         | Inr (ok, self1, w1) \<Rightarrow>
             if ok then Inr (Para self1, self1, w1) else Inr (PyNone, self1, w1))"

definition BlockDiag_image :: "env \<Rightarrow> handler \<Rightarrow> string \<Rightarrow> world
    \<Rightarrow> error + (retval \<times> handler \<times> world)" where
  "BlockDiag_image e self f w =
     (let self0 = fmt self f ''png'' []
      in case cmd e False self0
                [prog self0, ''-T'', fext self0, inpfile self0, ''-o'', outfile self0] w of
           Inl x \<Rightarrow> Inl x
         | Inr (ok, self1, w1) \<Rightarrow>
             if ok then Inr (Para self1, self1, w1) else Inr (PyNone, self1, w1))"

definition Graphviz_image :: "env \<Rightarrow> handler \<Rightarrow> string \<Rightarrow> world
    \<Rightarrow> error + (retval \<times> handler \<times> world)" where
  "Graphviz_image e self f w =
     (let self0 = fmt self f ''png'' [];
          args = str_split (options self0);
          args1 = args @ [''-T'' @ fext self0];
          args2 = args1 @ [inpfile self0, ''-o'', outfile self0]
      in case cmd e False self0 (prog self0 # args2) w of
           Inl x \<Rightarrow> Inl x
         | Inr (ok, self1, w1) \<Rightarrow>
             if ok then Inr (Para self1, self1, w1) else Inr (PyNone, self1, w1))"

text \<open>The method call \<^verbatim>\<open>worker.image(fmt)\<close>: the class of the instance picks the body.\<close>

fun worker_image :: "worker \<Rightarrow> env \<Rightarrow> handler \<Rightarrow> string \<Rightarrow> world
    \<Rightarrow> error + (retval \<times> handler \<times> world)" where
  "worker_image Handler e self f w =
     (case Handler_image Handler w of (r, w1) \<Rightarrow> Inr (r, self, w1))"
| "worker_image Imagine e self f w = Imagine_image e self f w"
| "worker_image Figlet e self f w = Figlet_image e self f w"
| "worker_image Boxes e self f w = Boxes_image e self f w"
| "worker_image Protocol e self f w = Protocol_image e self f w"
| "worker_image PlotUtilPlot e self f w = PlotUtilPlot_image e self f w"
| "worker_image PlotUtilsGraph e self f w = PlotUtilsGraph_image e self f w"
| "worker_image Pic2Plot e self f w = Pic2Plot_image e self f w"
| "worker_image PlantUml e self f w = PlantUml_image e self f w"
| "worker_image Mermaid e self f w = Mermaid_image e self f w"
| "worker_image Ditaa e self f w = Ditaa_image e self f w"
| "worker_image MscGen e self f w = MscGen_image e self f w"
| "worker_image BlockDiag e self f w = BlockDiag_image e self f w"
| "worker_image Graphviz e self f w = Graphviz_image e self f w"

fun image_of :: "env \<Rightarrow> obj \<Rightarrow> string \<Rightarrow> world \<Rightarrow> error + (retval \<times> obj \<times> world)" where
  "image_of e Handler_None f w =
     (case Handler_image Handler w of (r, w1) \<Rightarrow> Inr (r, Handler_None, w1))"
| "image_of e (Instance self) f w =
     (case worker_image (cls self) e self f w of
        Inl x \<Rightarrow> Inl x
      | Inr (r, self1, w1) \<Rightarrow> Inr (r, Instance self1, w1))"

subsection \<open>Dispatch\<close>

text \<open>
  The loop of \<^verbatim>\<open>Handler.__call__\<close> over the classes of the block: the first class that,
  lowercased, is a key of \<open>workers\<close>, with its worker.
\<close>

fun by_class :: "string list \<Rightarrow> (string \<times> worker) option" where
  "by_class [] = None"
| "by_class (klass0 # klasses) =
     (case workers (lower klass0) of
        Some worker0 \<Rightarrow> Some (klass0, worker0)
      | None \<Rightarrow> by_class klasses)"

text \<open>
  \<^verbatim>\<open>Handler.__call__\<close>: a worker by class, else a worker by \<^verbatim>\<open>prog\<close>, else the
  instance itself. \<^verbatim>\<open>worker(codec)\<close> builds the worker, so the constructor runs here.
\<close>

definition Handler_call :: "env \<Rightarrow> obj \<Rightarrow> codec \<Rightarrow> world \<Rightarrow> error + (obj \<times> world)" where
  "Handler_call e self cb w0 =
     (let me = class_of self;
          w = msg me 4 [S ''Handler __call__ codec'', A (fst cb)] w0;
          (_, klasses, kv) = fst cb
      in case by_class klasses of
           Some (klass0, worker0) \<Rightarrow>
             (let w1 = w\<lparr>klass := (klass w)(worker0 \<mapsto> lower klass0)\<rparr>;
                  w2 = msg me 4 [S klass0, S ''dispatched by class to'', W worker0] w1
              in case Handler_init e worker0 cb w2 of
                   Inl x \<Rightarrow> Inl x
                 | Inr (h, w3) \<Rightarrow> Inr (Instance h, w3))
         | None \<Rightarrow>
             if length kv = 0
             then Inr (self, msg me 4 [C cb, S ''dispatched by default'', W me] w)
             else
               (let (prog0, _) = get_value kv ''prog'' (Some '''');
                    prog1 = (case prog0 of Some p \<Rightarrow> p | None \<Rightarrow> '''')
                in case workers (lower prog1) of
                     Some worker0 \<Rightarrow>
                       (case Handler_init e worker0 cb
                               (msg me 4 [S prog1, S ''dispatched by prog to'', W worker0] w) of
                          Inl x \<Rightarrow> Inl x
                        | Inr (h, w3) \<Rightarrow> Inr (Instance h, w3))
                   | None \<Rightarrow>
                       Inr (self, msg me 4 [C cb, S ''dispatched by default to'', W me] w)))"

text \<open>
  \<^verbatim>\<open>walker\<close>, with \<^verbatim>\<open>dispatch = Handler(None)\<close>: a code block is dispatched and the
  worker's \<^verbatim>\<open>image\<close> is what the walker returns; any other element is kept.
\<close>

definition walker :: "env \<Rightarrow> string \<Rightarrow> codec \<Rightarrow> string \<Rightarrow> world \<Rightarrow> error + (retval \<times> world)" where
  "walker e key val f w =
     (if key = ''CodeBlock''
      then (case Handler_call e Handler_None val w of
              Inl x \<Rightarrow> Inl x
            | Inr (worker0, w1) \<Rightarrow>
                (case image_of e worker0 f w1 of
                   Inl x \<Rightarrow> Inl x
                 | Inr (r, _, w2) \<Rightarrow> Inr (r, w2)))
      else Inr (PyNone, w))"

section \<open>Notions used in the statements\<close>

text \<open>The value of a key when the last occurrence wins, as \<open>get_value\<close> reads it.\<close>

definition last_value :: "keyvals \<Rightarrow> string \<Rightarrow> string option" where
  "last_value kv key = map_of (rev kv) key"

text \<open>The paths \<^verbatim>\<open>Handler.__init__\<close> derives for a code block.\<close>

definition base_path :: "env \<Rightarrow> codec \<Rightarrow> string" where
  "base_path e cb = get_filename4code (sha1 e) IMG_BASEDIR (py_str e cb)"

definition out_path :: "env \<Rightarrow> codec \<Rightarrow> string" where
  "out_path e cb = base_path e cb @ ''.png''"

definition inp_path :: "env \<Rightarrow> codec \<Rightarrow> string" where
  "inp_path e cb = base_path e cb @ ''.txt''"

text \<open>
  \<^verbatim>\<open>Handler.__init__\<close> in closed form: the program it resolves, the attributes it sets
  and the state it leaves. \<open>Handler_init_eq\<close> below proves that this is what
  \<open>Handler_init\<close> computes.
\<close>

definition class_prog :: "world \<Rightarrow> worker \<Rightarrow> string option" where
  "class_prog w c = (case klass w c of Some k \<Rightarrow> map_of (codecs c) k | None \<Rightarrow> None)"

definition init_prog :: "world \<Rightarrow> worker \<Rightarrow> keyvals \<Rightarrow> string option" where
  "init_prog w c kv =
     (case last_value kv ''prog'' of
        Some p \<Rightarrow> if p \<noteq> '''' then Some p else class_prog w c
      | None \<Rightarrow> class_prog w c)"

definition init_world :: "env \<Rightarrow> worker \<Rightarrow> codec \<Rightarrow> world \<Rightarrow> world" where
  "init_world e c cb w =
     (if isfile w (inp_path e cb) then w
      else snd (Handler_write e c ''w'' (snd cb) (inp_path e cb) w))"

definition init_self :: "env \<Rightarrow> worker \<Rightarrow> codec \<Rightarrow> string \<Rightarrow> handler" where
  "init_self e c cb p =
     (case cb of ((i, cs, kv), src) \<Rightarrow>
      \<lparr>cls = c, codec = cb, cmd_output = '''', ident = i, classes = cs,
       keyvals = filter (\<lambda>(k, v). k \<noteq> ''keep'') (filter (\<lambda>(k, v). k \<noteq> ''prog'')
                   (filter (\<lambda>(k, v). k \<noteq> ''options'') (filter (\<lambda>(k, v). k \<noteq> ''caption'') kv))),
       code = src,
       caption = (case last_value kv ''caption'' of Some v \<Rightarrow> [pf_Str v] | None \<Rightarrow> []),
       typef = (case last_value kv ''caption'' of Some v \<Rightarrow> ''fig:'' | None \<Rightarrow> ''''),
       options = (case last_value kv ''options'' of Some s \<Rightarrow> s | None \<Rightarrow> ''''),
       prog = p,
       keep = (lower (case last_value kv ''keep'' of Some s \<Rightarrow> s | None \<Rightarrow> '''') = ''true''),
       basename = base_path e cb, fext = ''png'', outfile = out_path e cb,
       inpfile = inp_path e cb, codetxt = src\<rparr>)"

text \<open>
  The \<^verbatim>\<open>image\<close> methods that run a program, in closed form: the worker after the call of
  \<^verbatim>\<open>fmt\<close> (if the method calls it), the argument vector handed to \<^verbatim>\<open>cmd\<close>, and what
  the method does when \<^verbatim>\<open>cmd\<close> returns true. \<open>worker_image_eq\<close> below proves that
  this is what \<open>worker_image\<close> computes.
\<close>

definition prepared :: "worker \<Rightarrow> handler \<Rightarrow> string \<Rightarrow> handler" where
  "prepared c self f = (if c \<in> {Figlet, Boxes, Protocol} then self else fmt self f ''png'' [])"

fun argv :: "worker \<Rightarrow> handler \<Rightarrow> string list" where
  "argv Figlet self = prog self # str_split (options self) @ [codetxt self]"
| "argv Boxes self = prog self # str_split (options self) @ [inpfile self]"
| "argv Protocol self = prog self # str_split (options self) @ [codetxt self]"
| "argv PlotUtilPlot self =
     prog self # ''-T'' # fext self # str_split (options self) @ [codetxt self]"
| "argv PlotUtilsGraph self =
     prog self # ''-T'' # fext self # str_split (options self) @ [inpfile self]"
| "argv Pic2Plot self =
     prog self # ''-T'' # fext self # str_split (options self) @ [inpfile self]"
| "argv PlantUml self = [prog self, ''-t'' @ fext self, inpfile self]"
| "argv Mermaid self =
     prog self # ''-o'' # (IMG_BASEDIR @ ''-images'') # str_split (options self) @ [inpfile self]"
| "argv Ditaa self = [prog self, inpfile self, outfile self, ''-T'', options self]"
| "argv MscGen self = [prog self, ''-T'', fext self, ''-o'', outfile self, inpfile self]"
| "argv BlockDiag self = [prog self, ''-T'', fext self, inpfile self, ''-o'', outfile self]"
| "argv Graphviz self =
     prog self # str_split (options self) @ [''-T'' @ fext self, inpfile self, ''-o'', outfile self]"
| "argv _ self = []"

definition on_success :: "worker \<Rightarrow> env \<Rightarrow> handler \<Rightarrow> world \<Rightarrow> retval \<times> world" where
  "on_success c e self w =
     (if c \<in> {Figlet, Boxes, Protocol}
        then (CodeBlock self (fst (codec self)) (cmd_output self), w)
      else if c \<in> {PlotUtilPlot, PlotUtilsGraph, Pic2Plot}
        then (Para self,
              snd (Handler_write e (cls self) ''wb'' (cmd_output self) (outfile self) w))
      else if c = Mermaid
        then (Para self,
              (case os_rename (inpfile self @ ''.'' @ fext self) (outfile self) (files w) of
                 Some fs \<Rightarrow> w\<lparr>files := fs\<rparr>
               | None \<Rightarrow> w))
      else (Para self, w))"

text \<open>
  \<^verbatim>\<open>Handler.__call__\<close> on the dispatcher in closed form: the class of the worker it builds
  for a block and the program the constructor resolves, or \<open>None\<close> when the dispatcher
  returns itself. \<open>Handler_call_target\<close> below proves that this is what \<open>Handler_call\<close>
  computes.
\<close>

definition target :: "codec \<Rightarrow> (worker \<times> string) option" where
  "target cb =
     (case cb of ((i, cs, kv), src) \<Rightarrow>
        (case by_class cs of
           Some (t, wk) \<Rightarrow>
             (case last_value kv ''prog'' of
                Some p \<Rightarrow>
                  if p \<noteq> '''' then Some (wk, p)
                  else map_option (\<lambda>q. (wk, q)) (map_of (codecs wk) (lower t))
              | None \<Rightarrow> map_option (\<lambda>q. (wk, q)) (map_of (codecs wk) (lower t)))
         | None \<Rightarrow>
             (case last_value kv ''prog'' of
                Some p \<Rightarrow> map_option (\<lambda>wk. (wk, p)) (workers (lower p))
              | None \<Rightarrow> None)))"

section \<open>Example environments\<close>

text \<open>
  A rendering of a code block value in the manner of Python's \<^verbatim>\<open>str\<close> of a list, without
  the escapes, and a toy digest. They stand in for \<^verbatim>\<open>str\<close> and SHA-1 in the examples only.
\<close>

definition example_repr :: "string \<Rightarrow> string" where
  "example_repr s = ''u'' @ [CHR 0x27] @ s @ [CHR 0x27]"

definition example_str :: "codec \<Rightarrow> string" where
  "example_str cb =
     (case cb of ((i, cs, kv), src) \<Rightarrow>
        ''[['' @ example_repr i @ '', ['' @ join '', '' (map example_repr cs) @ ''], [''
        @ join '', '' (map (\<lambda>(k, v). ''['' @ example_repr k @ '', '' @ example_repr v @ '']'') kv)
        @ '']], '' @ example_repr src @ '']'')"

definition example_digest :: "string \<Rightarrow> 160 word" where
  "example_digest s = of_nat (length s)"

text \<open>Every program prints \<^verbatim>\<open>art\<close>, exits with status 0 and touches no file.\<close>

definition env_ok :: env where
  "env_ok = \<lparr>check_output = (\<lambda>args fs. (Returned 0 ''art'', fs)), can_write = (\<lambda>p. True),
             can_remove = (\<lambda>p. True), sha1 = example_digest, py_str = example_str,
             doc = ''Imagine''\<rparr>"

text \<open>
  Every program writes some bytes to the file named by its last argument, prints
  \<^verbatim>\<open>boom\<close> and exits with status 1.
\<close>

definition env_fail :: env where
  "env_fail = \<lparr>check_output = (\<lambda>args fs. (Returned 1 ''boom'', fs(last args \<mapsto> ''partial''))),
               can_write = (\<lambda>p. True), can_remove = (\<lambda>p. True), sha1 = example_digest,
               py_str = example_str, doc = ''Imagine''\<rparr>"

text \<open>The state at the start of a run in an empty directory.\<close>

definition world0 :: world where
  "world0 = \<lparr>files = Map.empty, klass = Map.empty, stderr = [], calls = []\<rparr>"

text \<open>A \<^verbatim>\<open>dot\<close> block, its worker as the constructor builds it, and a state with its image.\<close>

definition dot_block :: codec where
  "dot_block = (('''', [''dot''], []), ''digraph { a -> b }'')"

definition dot_handler :: handler where
  "dot_handler = init_self env_ok Graphviz dot_block ''dot''"

definition world_cached :: world where
  "world_cached = world0\<lparr>files := [out_path env_ok dot_block \<mapsto> ''PNG'']\<rparr>"

text \<open>
  A \<^verbatim>\<open>graph\<close> block and a \<^verbatim>\<open>plot\<close> block, the state after the dispatcher has set
  \<^verbatim>\<open>klass\<close> on their classes, their workers, and a state with the image of the first.
\<close>

definition graph_block :: codec where
  "graph_block = (('''', [''graph''], []), ''0 0 1 1 2 4'')"

definition world_graph :: world where
  "world_graph = world0\<lparr>klass := [PlotUtilsGraph \<mapsto> ''graph'']\<rparr>"

definition graph_handler :: handler where
  "graph_handler = init_self env_ok PlotUtilsGraph graph_block ''graph''"

definition world_graph_cached :: world where
  "world_graph_cached = world0\<lparr>files := [out_path env_ok graph_block \<mapsto> ''PNG'']\<rparr>"

definition plot_block :: codec where
  "plot_block = (('''', [''plot''], []), ''missing.meta'')"

definition world_plot :: world where
  "world_plot = world0\<lparr>klass := [PlotUtilPlot \<mapsto> ''plot'']\<rparr>"

definition plot_handler :: handler where
  "plot_handler = init_self env_ok PlotUtilPlot plot_block ''plot''"

text \<open>A \<^verbatim>\<open>figlet\<close> block and an \<^verbatim>\<open>imagine\<close> block that ask to keep the original.\<close>

definition figlet_keep_block :: codec where
  "figlet_keep_block = ((''fig1'', [''figlet''], [(''keep'', ''True'')]), ''HI'')"

definition world_figlet :: world where
  "world_figlet = world0\<lparr>klass := [Figlet \<mapsto> ''figlet'']\<rparr>"

definition figlet_keep_handler :: handler where
  "figlet_keep_handler = init_self env_ok Figlet figlet_keep_block ''figlet''"

definition imagine_keep_block :: codec where
  "imagine_keep_block = (('''', [''imagine''], [(''keep'', ''true'')]), '''')"

definition imagine_keep_handler :: handler where
  "imagine_keep_handler = init_self env_ok Imagine imagine_keep_block ''imagine''"

text \<open>The \<^verbatim>\<open>figlet\<close> block of the end-to-end example.\<close>

definition figlet_block :: codec where
  "figlet_block = (('''', [''figlet''], []), ''HI'')"

section \<open>Properties\<close>

subsection \<open>The registry\<close>

lemma workers_eq:
  "workers = map_of
     [(''graphviz'', Graphviz), (''sfdp'', Graphviz), (''fdp'', Graphviz), (''circo'', Graphviz),
      (''twopi'', Graphviz), (''neato'', Graphviz), (''dot'', Graphviz),
      (''actdiag'', BlockDiag), (''packetdiag'', BlockDiag), (''nwdiag'', BlockDiag),
      (''rackdiag'', BlockDiag), (''seqdiag'', BlockDiag), (''blockdiag'', BlockDiag),
      (''mscgen'', MscGen), (''ditaa'', Ditaa), (''mermaid'', Mermaid), (''plantuml'', PlantUml),
      (''pic'', Pic2Plot), (''pic2plot'', Pic2Plot), (''gnugraph'', PlotUtilsGraph),
      (''graph'', PlotUtilsGraph), (''plot'', PlotUtilPlot), (''protocol'', Protocol),
      (''boxes'', Boxes), (''figlet'', Figlet), (''imagine'', Imagine)]"
  by (simp add: workers_def worker_classes_def HandlerMeta_init_def lower_def lower_char_def)

text \<open>Every class in the registry has a program for the key it is registered under.\<close>

lemma workers_codecs: "workers k = Some c \<Longrightarrow> map_of (codecs c) k \<noteq> None"
  by (auto simp: workers_eq split: if_splits)

lemma workers_empty_key: "workers '''' = None"
  by (simp add: workers_eq)

lemma workers_not_Handler: "workers k \<noteq> Some Handler"
  by (auto simp: workers_eq split: if_splits)

subsection \<open>The attribute decoder\<close>

lemma fold_get_value:
  "fold (\<lambda>(k, v) (val, res). if k = key then (Some v, res) else (val, res @ [(k, v)])) kv (d, acc)
   = ((case map_of (rev kv) key of Some v \<Rightarrow> Some v | None \<Rightarrow> d),
      acc @ filter (\<lambda>(k, v). k \<noteq> key) kv)"
  by (induction kv arbitrary: d acc) (auto split: option.splits)

lemma get_value_eq:
  "get_value kv key d =
     ((case last_value kv key of Some v \<Rightarrow> Some v | None \<Rightarrow> d),
      filter (\<lambda>(k, v). k \<noteq> key) kv)"
  unfolding get_value_def last_value_def by (simp add: fold_get_value)

lemma last_value_filter:
  "(\<And>v. P (key, v)) \<Longrightarrow> last_value (filter P kv) key = last_value kv key"
  unfolding last_value_def
  by (induction kv) (auto simp: map_add_def split: option.splits)

lemma get_caption_eq:
  "get_caption kv =
     ((case last_value kv ''caption'' of Some v \<Rightarrow> [pf_Str v] | None \<Rightarrow> []),
      (case last_value kv ''caption'' of Some v \<Rightarrow> ''fig:'' | None \<Rightarrow> ''''),
      filter (\<lambda>(k, v). k \<noteq> ''caption'') kv)"
  by (simp add: get_caption_def get_value_eq split: option.splits)

lemma last_value_Some_mem: "last_value kv key = Some v \<Longrightarrow> (key, v) \<in> set kv"
  unfolding last_value_def by (metis map_of_SomeD set_rev)

subsection \<open>The constructor\<close>

lemma last_value_pop1:
  "last_value (filter (\<lambda>(k, v). k \<noteq> ''caption'') kv) ''options'' = last_value kv ''options''"
  by (rule last_value_filter) simp

lemma last_value_pop2:
  "last_value (filter (\<lambda>(k, v). k \<noteq> ''options'') (filter (\<lambda>(k, v). k \<noteq> ''caption'') kv)) ''prog''
   = last_value kv ''prog''"
  by (simp add: last_value_filter del: filter_filter)

lemma last_value_pop3:
  "last_value (filter (\<lambda>(k, v). k \<noteq> ''prog'') (filter (\<lambda>(k, v). k \<noteq> ''options'')
     (filter (\<lambda>(k, v). k \<noteq> ''caption'') kv))) ''keep'' = last_value kv ''keep''"
  by (simp add: last_value_filter del: filter_filter)

lemma Handler_init_eq:
  "Handler_init e c cb w =
     (case init_prog w c (snd (snd (fst cb))) of
        None \<Rightarrow> Inl NoCliCommand
      | Some p \<Rightarrow> Inr (init_self e c cb p, init_world e c cb w))"
proof -
  obtain i cs kv src where cb: "cb = ((i, cs, kv), src)"
    by (metis surj_pair)
  show ?thesis
    unfolding cb Handler_init_def get_caption_eq get_value_eq
    apply (simp only: Let_def prod.case fst_conv snd_conv
        last_value_pop1 last_value_pop2 last_value_pop3)
    apply (simp add: init_prog_def class_prog_def init_self_def init_world_def base_path_def
        out_path_def inp_path_def split: option.splits del: filter_filter)
    done
qed

lemma init_self_fields [simp]:
  "cls (init_self e c cb p) = c"
  "codec (init_self e c cb p) = cb"
  "cmd_output (init_self e c cb p) = ''''"
  "prog (init_self e c cb p) = p"
  "basename (init_self e c cb p) = base_path e cb"
  "fext (init_self e c cb p) = ''png''"
  "outfile (init_self e c cb p) = out_path e cb"
  "inpfile (init_self e c cb p) = inp_path e cb"
  "codetxt (init_self e c cb p) = snd cb"
  "code (init_self e c cb p) = snd cb"
  "ident (init_self e c cb p) = fst (fst cb)"
  "classes (init_self e c cb p) = fst (snd (fst cb))"
  "options (init_self e c cb p) =
     (case last_value (snd (snd (fst cb))) ''options'' of Some s \<Rightarrow> s | None \<Rightarrow> '''')"
  "keep (init_self e c cb p) =
     (lower (case last_value (snd (snd (fst cb))) ''keep'' of Some s \<Rightarrow> s | None \<Rightarrow> '''') = ''true'')"
  by (simp_all add: init_self_def split: prod.splits)

lemma msg_fields [simp]:
  "files (msg c l a w) = files w" "calls (msg c l a w) = calls w" "klass (msg c l a w) = klass w"
  by (simp_all add: msg_def)

lemma isfile_msg [simp]: "isfile (msg c l a w) p = isfile w p"
  by (simp add: isfile_def)

lemma Handler_write_fields [simp]:
  "calls (snd (Handler_write e c m dta dst w)) = calls w"
  "klass (snd (Handler_write e c m dta dst w)) = klass w"
  by (simp_all add: Handler_write_def)

lemma Handler_write_files:
  "files (snd (Handler_write e c m dta dst w)) =
     (if dta \<noteq> '''' \<and> can_write e dst then (files w)(dst \<mapsto> dta) else files w)"
  by (simp add: Handler_write_def)

lemma init_world_fields [simp]:
  "calls (init_world e c cb w) = calls w" "klass (init_world e c cb w) = klass w"
  by (simp_all add: init_world_def)

lemma init_world_files:
  "files (init_world e c cb w) =
     (if files w (inp_path e cb) = None \<and> snd cb \<noteq> '''' \<and> can_write e (inp_path e cb)
      then (files w)(inp_path e cb \<mapsto> snd cb) else files w)"
  by (simp add: init_world_def Handler_write_files isfile_def)

lemma inp_path_neq_out_path [simp]:
  "inp_path e cb \<noteq> out_path e cb" "out_path e cb \<noteq> inp_path e cb"
  by (simp_all add: inp_path_def out_path_def)

lemma init_world_files_other:
  "p \<noteq> inp_path e cb \<Longrightarrow> files (init_world e c cb w) p = files w p"
  by (simp add: init_world_files)

subsection \<open>Dispatch\<close>

lemma by_class_first:
  "\<forall>c \<in> set pre. workers (lower c) = None \<Longrightarrow> workers (lower t) = Some wk \<Longrightarrow>
   by_class (pre @ t # post) = Some (t, wk)"
  by (induction pre) simp_all

lemma by_class_None: "\<forall>c \<in> set cs. workers (lower c) = None \<Longrightarrow> by_class cs = None"
  by (induction cs) simp_all

lemma by_class_SomeD: "by_class cs = Some (t, wk) \<Longrightarrow> workers (lower t) = Some wk"
  by (induction cs) (auto split: option.splits)

lemma lower_empty [simp]: "lower '''' = ''''"
  by (simp add: lower_def)

lemma Handler_call_by_class:
  assumes "by_class cs = Some (t, wk)"
  shows "\<exists>p. init_prog (w\<lparr>klass := (klass w)(wk \<mapsto> lower t)\<rparr>) wk kv = Some p
           \<and> Handler_call e self ((i, cs, kv), src) w =
           Inr (Instance (init_self e wk ((i, cs, kv), src) p),
                init_world e wk ((i, cs, kv), src)
                  (msg (class_of self) 4 [S t, S ''dispatched by class to'', W wk]
                     ((msg (class_of self) 4 [S ''Handler __call__ codec'', A (i, cs, kv)] w)
                        \<lparr>klass := (klass w)(wk \<mapsto> lower t)\<rparr>)))"
proof -
  from assms have "workers (lower t) = Some wk"
    by (rule by_class_SomeD)
  then obtain q where q: "map_of (codecs wk) (lower t) = Some q"
    using workers_codecs by blast
  show ?thesis
    using assms q
    by (auto simp: Handler_call_def Let_def Handler_init_eq init_prog_def class_prog_def
        split: option.splits)
qed

lemma Handler_call_by_prog:
  assumes "by_class cs = None" and "kv \<noteq> []" and "last_value kv ''prog'' = Some p"
    and "workers (lower p) = Some wk"
  shows "Handler_call e self ((i, cs, kv), src) w =
           Inr (Instance (init_self e wk ((i, cs, kv), src) p),
                init_world e wk ((i, cs, kv), src)
                  (msg (class_of self) 4 [S p, S ''dispatched by prog to'', W wk]
                     (msg (class_of self) 4 [S ''Handler __call__ codec'', A (i, cs, kv)] w)))"
proof -
  have "p \<noteq> ''''"
    using assms(4) workers_empty_key by auto
  then show ?thesis
    using assms
    by (simp add: Handler_call_def Let_def Handler_init_eq init_prog_def get_value_eq)
qed

lemma Handler_call_default:
  assumes "by_class cs = None"
    and "kv = [] \<or> workers (lower (case last_value kv ''prog'' of Some p \<Rightarrow> p | None \<Rightarrow> '''')) = None"
  shows "Handler_call e self ((i, cs, kv), src) w =
           Inr (self,
                msg (class_of self) 4
                  [C ((i, cs, kv), src),
                   S (if kv = [] then ''dispatched by default'' else ''dispatched by default to''),
                   W (class_of self)]
                  (msg (class_of self) 4 [S ''Handler __call__ codec'', A (i, cs, kv)] w))"
  using assms
  by (auto simp: Handler_call_def Let_def get_value_eq split: option.splits)

lemma msg_quiet: "level c < l \<Longrightarrow> msg c l a w = w"
  by (simp add: msg_def)





subsection \<open>The process runner\<close>

lemma cmd_hit:
  "files w (outfile self) \<noteq> None \<Longrightarrow> \<not> force \<Longrightarrow>
   cmd e force self args w = Inr (True, self, msg (cls self) 1 [S ''exists:'', L args] w)"
  by (simp add: cmd_def isfile_def)

lemma cmd_ok:
  "files w (outfile self) = None \<or> force \<Longrightarrow> check_output e args (files w) = (Returned 0 out, fs) \<Longrightarrow>
   cmd e force self args w =
     Inr (True, self\<lparr>cmd_output := out\<rparr>,
          msg (cls self) 1 [S ''ok:'', L args]
            (w\<lparr>files := fs, calls := calls w @ [(args, Returned 0 out)]\<rparr>))"
  by (auto simp: cmd_def isfile_def Let_def)

lemma cmd_fail:
  assumes "files w (outfile self) = None \<or> force"
    and "check_output e args (files w) = (Returned rc out, fs)" and "rc \<noteq> 0"
  shows "\<exists>w'. cmd e force self args w = Inr (False, self, w')
           \<and> files w' = (if can_remove e (outfile self) then fs(outfile self := None) else fs)
           \<and> calls w' = calls w @ [(args, Returned rc out)]
           \<and> klass w' = klass w
           \<and> stderr w' = stderr w @ [(cls self, [S ''fail:'', L args]),
                                     (cls self, [S '' '', S (prog self), S '':'', S out])]"
  using assms
  by (auto simp: cmd_def isfile_def Let_def os_remove_def msg_def)

lemma cmd_not_started:
  "files w (outfile self) = None \<or> force \<Longrightarrow> check_output e args (files w) = (NotStarted, fs) \<Longrightarrow>
   cmd e force self args w = Inl OSError"
  by (auto simp: cmd_def isfile_def)

text \<open>
  C3. With \<^verbatim>\<open>force\<close> false and a file at the output path, \<^verbatim>\<open>cmd\<close> returns true
  without running the program: no call is added to the history, no file changes and the
  worker (with its captured output) is as before. Whenever \<^verbatim>\<open>cmd\<close> returns, no program
  was run if and only if the output file was there and \<^verbatim>\<open>force\<close> was false.
\<close>

theorem cmd_skips_existing_output:
  "(files w (outfile self) \<noteq> None \<longrightarrow>
      (\<exists>w'. cmd e False self args w = Inr (True, self, w')
         \<and> calls w' = calls w \<and> files w' = files w))
   \<and> (\<forall>ok self' w'. cmd e force self args w = Inr (ok, self', w') \<longrightarrow>
         (calls w' = calls w) = (files w (outfile self) \<noteq> None \<and> \<not> force))"
proof -
  have "files w (outfile self) \<noteq> None \<longrightarrow>
      (\<exists>w'. cmd e False self args w = Inr (True, self, w')
         \<and> calls w' = calls w \<and> files w' = files w)"
    by (simp add: cmd_hit)
  moreover have "\<forall>ok self' w'. cmd e force self args w = Inr (ok, self', w') \<longrightarrow>
         (calls w' = calls w) = (files w (outfile self) \<noteq> None \<and> \<not> force)"
  proof (intro allI impI)
    fix ok self' w'
    assume r: "cmd e force self args w = Inr (ok, self', w')"
    show "(calls w' = calls w) = (files w (outfile self) \<noteq> None \<and> \<not> force)"
    proof (cases "files w (outfile self) \<noteq> None \<and> \<not> force")
      case True
      with r show ?thesis by (auto simp: cmd_hit)
    next
      case False
      then have nf: "files w (outfile self) = None \<or> force" by blast
      obtain p fs where co: "check_output e args (files w) = (p, fs)"
        by (cases "check_output e args (files w)")
      show ?thesis
      proof (cases p)
        case NotStarted
        with r co nf show ?thesis by (simp add: cmd_not_started)
      next
        case (Returned rc out)
        show ?thesis
        proof (cases "rc = 0")
          case True
          with r co nf Returned False show ?thesis by (auto simp: cmd_ok)
        next
          case rc: False
          from cmd_fail [OF nf co [unfolded Returned] rc] r False
          show ?thesis by auto
        qed
      qed
    qed
  qed
  ultimately show ?thesis by blast
qed

theorem cmd_skips_existing_output_witness:
  "files world_cached (outfile dot_handler) \<noteq> None
   \<and> (\<exists>w'. cmd env_fail False dot_handler [''dot''] world_cached = Inr (True, dot_handler, w')
          \<and> calls w' = calls world_cached \<and> files w' = files world_cached)
   \<and> (\<exists>w'. cmd env_ok False dot_handler [''dot''] world0
             = Inr (True, dot_handler\<lparr>cmd_output := ''art''\<rparr>, w')
          \<and> calls w' \<noteq> calls world0 \<and> files world0 (outfile dot_handler) = None)"
proof -
  have a: "files world_cached (outfile dot_handler) \<noteq> None"
    by (simp add: world_cached_def dot_handler_def)
  have b: "files world0 (outfile dot_handler) = None"
    by (simp add: world0_def)
  have c: "cmd env_ok False dot_handler [''dot''] world0
      = Inr (True, dot_handler\<lparr>cmd_output := ''art''\<rparr>,
             msg Graphviz 1 [S ''ok:'', L [''dot'']]
               (world0\<lparr>files := Map.empty, calls := [([''dot''], Returned 0 ''art'')]\<rparr>))"
    using b by (simp add: cmd_ok env_ok_def world0_def dot_handler_def)
  show ?thesis
    using a b c
      cmd_skips_existing_output [of world_cached dot_handler env_fail "[''dot'']" False]
      cmd_skips_existing_output [of world0 dot_handler env_ok "[''dot'']" False]
    by auto
qed

subsection \<open>The image methods\<close>

lemma fmt_fields [simp]:
  "cls (fmt self f d sp) = cls self"
  "codec (fmt self f d sp) = codec self"
  "cmd_output (fmt self f d sp) = cmd_output self"
  "prog (fmt self f d sp) = prog self"
  "basename (fmt self f d sp) = basename self"
  "inpfile (fmt self f d sp) = inpfile self"
  "codetxt (fmt self f d sp) = codetxt self"
  "options (fmt self f d sp) = options self"
  "keep (fmt self f d sp) = keep self"
  "code (fmt self f d sp) = code self"
  "fext (fmt self f d []) = d"
  "outfile (fmt self f d []) = basename self @ ''.'' @ d"
  by (simp_all add: fmt_def get_extension_def Let_def)

lemma fmt_init_self [simp]: "fmt (init_self e c cb p) f ''png'' [] = init_self e c cb p"
  by (simp add: fmt_def get_extension_def Let_def init_self_def out_path_def split: prod.splits)

lemma prepared_init_self [simp]: "prepared c (init_self e c' cb p) f = init_self e c' cb p"
  by (simp add: prepared_def)

lemma prepared_fields [simp]:
  "cls (prepared c self f) = cls self"
  "codec (prepared c self f) = codec self"
  "cmd_output (prepared c self f) = cmd_output self"
  "prog (prepared c self f) = prog self"
  "codetxt (prepared c self f) = codetxt self"
  "keep (prepared c self f) = keep self"
  by (simp_all add: prepared_def)

text \<open>Every class but \<^verbatim>\<open>Handler\<close> and \<^verbatim>\<open>Imagine\<close> runs \<^verbatim>\<open>cmd\<close> once, in this way.\<close>

lemma worker_image_eq:
  assumes "c \<noteq> Handler" and "c \<noteq> Imagine"
    and "c = PlotUtilPlot \<longrightarrow> files w (codetxt self) \<noteq> None"
  shows "worker_image c e self f w =
           (case cmd e False (prepared c self f) (argv c (prepared c self f)) w of
              Inl x \<Rightarrow> Inl x
            | Inr (ok, self1, w1) \<Rightarrow>
                if ok then Inr (fst (on_success c e self1 w1), self1, snd (on_success c e self1 w1))
                else Inr (PyNone, self1, w1))"
  using assms
  by (cases c)
    (auto simp: prepared_def on_success_def Let_def isfile_def
      Figlet_image_def Boxes_image_def Protocol_image_def PlotUtilPlot_image_def
      PlotUtilsGraph_image_def Pic2Plot_image_def PlantUml_image_def Mermaid_image_def
      Ditaa_image_def MscGen_image_def BlockDiag_image_def Graphviz_image_def
      split: sum.splits prod.splits)

lemma PlotUtilPlot_missing:
  "files w (codetxt self) = None \<Longrightarrow>
   worker_image PlotUtilPlot e self f w =
     Inr (PyNone, fmt self f ''png'' [],
          w\<lparr>stderr := stderr w @ [(cls self, [S ''fail: cannot read file'', S (codetxt self)])]\<rparr>)"
  by (simp add: PlotUtilPlot_image_def Let_def isfile_def msg_def)

lemma worker_image_Handler: "worker_image Handler e self f w = Inr (PyNone, self, w)"
  by (simp add: Handler_image_def msg_def)

lemma worker_image_Imagine:
  "worker_image Imagine e self f w =
     Inr (Element (pf_CodeBlock ('''', [''imagine''], []) (doc e)), self, w)"
  by (simp add: Imagine_image_def)

declare worker_image.simps [simp del]

lemma on_success_calls [simp]: "calls (snd (on_success c e self w)) = calls w"
  by (simp add: on_success_def split: option.splits)

lemma on_success_not_None [simp]: "fst (on_success c e self w) \<noteq> PyNone"
  by (simp add: on_success_def Para_def CodeBlock_def Let_def)

lemma Handler_init_InrD:
  "Handler_init e c cb w = Inr (self, w') \<Longrightarrow>
   \<exists>p. self = init_self e c cb p \<and> w' = init_world e c cb w"
  by (auto simp: Handler_init_eq split: option.splits)

text \<open>
  C8. A \<^verbatim>\<open>plot\<close> worker whose code, read as a path, names no file: \<^verbatim>\<open>image\<close> returns
  \<^verbatim>\<open>None\<close>, runs no program, changes no file, and prints one line, the error, on
  standard error.
\<close>

theorem plot_missing_input_keeps_block:
  assumes "Handler_init e PlotUtilPlot cb w0 = Inr (self, w1)"
    and "files w (snd cb) = None"
  shows "\<exists>self' w'. worker_image PlotUtilPlot e self f w = Inr (PyNone, self', w')
           \<and> calls w' = calls w \<and> files w' = files w
           \<and> stderr w' = stderr w @ [(PlotUtilPlot, [S ''fail: cannot read file'', S (snd cb)])]"
proof -
  from assms(1) obtain p where self: "self = init_self e PlotUtilPlot cb p"
    using Handler_init_InrD by blast
  have "files w (codetxt self) = None"
    using assms(2) by (simp add: self)
  from PlotUtilPlot_missing [OF this, of e f]
  show ?thesis by (simp add: self)
qed

theorem plot_missing_input_keeps_block_witness:
  "Handler_init env_ok PlotUtilPlot plot_block world_plot
     = Inr (plot_handler, init_world env_ok PlotUtilPlot plot_block world_plot)
   \<and> files world0 (snd plot_block) = None
   \<and> (\<exists>self' w'. worker_image PlotUtilPlot env_ok plot_handler ''html'' world0
                    = Inr (PyNone, self', w')
          \<and> calls w' = calls world0 \<and> files w' = files world0
          \<and> stderr w' = stderr world0
               @ [(PlotUtilPlot, [S ''fail: cannot read file'', S (snd plot_block)])])"
proof -
  have a: "Handler_init env_ok PlotUtilPlot plot_block world_plot
      = Inr (plot_handler, init_world env_ok PlotUtilPlot plot_block world_plot)"
    by (simp add: Handler_init_eq init_prog_def class_prog_def plot_block_def world_plot_def
        world0_def last_value_def plot_handler_def)
  have b: "files world0 (snd plot_block) = None"
    by (simp add: world0_def)
  show ?thesis
    using a b plot_missing_input_keeps_block [OF a b, of "''html''"]
    by simp
qed

text \<open>
  C10. For \<^verbatim>\<open>plot\<close>, \<^verbatim>\<open>graph\<close> and \<^verbatim>\<open>pic2plot\<close>, the classes that write the
  captured output to the output file: when a file is at the output path of a worker as the
  constructor built it, \<^verbatim>\<open>image\<close> returns without running a program, the captured
  output is still empty, and no file changes, the output file included.
\<close>

theorem cache_hit_leaves_output_file:
  assumes "c \<in> {PlotUtilPlot, PlotUtilsGraph, Pic2Plot}"
    and "Handler_init e c cb w0 = Inr (self, w1)"
    and "files w (outfile self) = Some b"
  shows "\<exists>r self' w'. worker_image c e self f w = Inr (r, self', w')
           \<and> calls w' = calls w \<and> cmd_output self' = '''' \<and> files w' = files w
           \<and> files w' (outfile self) = Some b"
proof -
  from assms(2) obtain p where self: "self = init_self e c cb p"
    using Handler_init_InrD by blast
  show ?thesis
  proof (cases "c = PlotUtilPlot \<and> files w (codetxt self) = None")
    case True
    then show ?thesis
      using PlotUtilPlot_missing [of w self e f] assms(3) by (simp add: self)
  next
    case False
    have c: "c \<noteq> Handler" "c \<noteq> Imagine"
      using assms(1) by auto
    have ex: "files w (outfile (prepared c self f)) \<noteq> None"
      using assms(3) by (simp add: self)
    have "worker_image c e self f w =
        Inr (fst (on_success c e self (msg c 1 [S ''exists:'', L (argv c self)] w)), self,
             snd (on_success c e self (msg c 1 [S ''exists:'', L (argv c self)] w)))"
      using False ex by (simp add: worker_image_eq [OF c] cmd_hit, simp add: self)
    moreover have "files (snd (on_success c e self w2)) = files w2" for w2
      using assms(1) by (auto simp: on_success_def Handler_write_files self)
    ultimately show ?thesis
      using assms(3) by (simp add: self)
  qed
qed

theorem cache_hit_leaves_output_file_witness:
  "PlotUtilsGraph \<in> {PlotUtilPlot, PlotUtilsGraph, Pic2Plot}
   \<and> Handler_init env_ok PlotUtilsGraph graph_block world_graph
       = Inr (graph_handler, init_world env_ok PlotUtilsGraph graph_block world_graph)
   \<and> files world_graph_cached (outfile graph_handler) = Some ''PNG''
   \<and> (\<exists>r self' w'. worker_image PlotUtilsGraph env_ok graph_handler ''latex'' world_graph_cached
                      = Inr (r, self', w')
          \<and> calls w' = calls world_graph_cached \<and> cmd_output self' = ''''
          \<and> files w' = files world_graph_cached
          \<and> files w' (outfile graph_handler) = Some ''PNG'')"
proof -
  have a: "PlotUtilsGraph \<in> {PlotUtilPlot, PlotUtilsGraph, Pic2Plot}"
    by simp
  have b: "Handler_init env_ok PlotUtilsGraph graph_block world_graph
      = Inr (graph_handler, init_world env_ok PlotUtilsGraph graph_block world_graph)"
    by (simp add: Handler_init_eq init_prog_def class_prog_def graph_block_def world_graph_def
        world0_def last_value_def graph_handler_def)
  have c: "files world_graph_cached (outfile graph_handler) = Some ''PNG''"
    by (simp add: world_graph_cached_def graph_handler_def)
  show ?thesis
    using a b c cache_hit_leaves_output_file [OF a b c, of "''latex''"]
    by simp
qed

lemma worker_image_calls:
  assumes "worker_image c e self f w = Inr (r, self', w')"
  shows "calls w' = calls w
         \<or> (\<exists>out. calls w' = calls w @ [(argv c (prepared c self f), Returned 0 out)]
                 \<and> r \<noteq> PyNone)
         \<or> (\<exists>rc out. rc \<noteq> 0
                 \<and> calls w' = calls w @ [(argv c (prepared c self f), Returned rc out)]
                 \<and> r = PyNone \<and> self' = prepared c self f
                 \<and> (can_remove e (outfile self') \<longrightarrow> files w' (outfile self') = None)
                 \<and> stderr w' = stderr w
                      @ [(cls self, [S ''fail:'', L (argv c (prepared c self f))]),
                         (cls self, [S '' '', S (prog self), S '':'', S out])])"
proof -
  consider (plain) "c = Handler \<or> c = Imagine \<or> (c = PlotUtilPlot \<and> files w (codetxt self) = None)"
    | (runs) "c \<noteq> Handler" "c \<noteq> Imagine" "c = PlotUtilPlot \<longrightarrow> files w (codetxt self) \<noteq> None"
    by blast
  then show ?thesis
  proof cases
    case plain
    then have "calls w' = calls w"
      using assms PlotUtilPlot_missing [of w self e f]
      by (auto simp: worker_image_Handler worker_image_Imagine)
    then show ?thesis by simp
  next
    case runs
    let ?s = "prepared c self f"
    let ?a = "argv c ?s"
    note eq = worker_image_eq [OF runs, of e f]
    show ?thesis
    proof (cases "files w (outfile ?s) \<noteq> None")
      case True
      then have "calls w' = calls w"
        using assms by (auto simp: eq cmd_hit)
      then show ?thesis by simp
    next
      case False
      then have nf: "files w (outfile ?s) = None \<or> False" by simp
      obtain p fs where co: "check_output e ?a (files w) = (p, fs)"
        by (cases "check_output e ?a (files w)")
      show ?thesis
      proof (cases p)
        case NotStarted
        with assms co nf show ?thesis
          by (simp add: eq cmd_not_started)
      next
        case (Returned rc out)
        show ?thesis
        proof (cases "rc = 0")
          case True
          with assms co nf Returned have "calls w' = calls w @ [(?a, Returned 0 out)] \<and> r \<noteq> PyNone"
            by (auto simp: eq cmd_ok)
          then show ?thesis by blast
        next
          case rc: False
          from cmd_fail [OF nf co [unfolded Returned] rc]
          obtain w2 where w2: "cmd e False ?s ?a w = Inr (False, ?s, w2)"
            "files w2 = (if can_remove e (outfile ?s) then fs(outfile ?s := None) else fs)"
            "calls w2 = calls w @ [(?a, Returned rc out)]"
            "stderr w2 = stderr w @ [(cls ?s, [S ''fail:'', L ?a]),
                                    (cls ?s, [S '' '', S (prog ?s), S '':'', S out])]"
            by blast
          from assms w2(1) have res: "r = PyNone" "self' = ?s" "w' = w2"
            by (simp_all add: eq)
          show ?thesis
            using rc res w2(2-4) by auto
        qed
      qed
    qed
  qed
qed

text \<open>
  C4. When the program that \<^verbatim>\<open>cmd\<close> runs exits with a non-zero status, \<^verbatim>\<open>cmd\<close>
  returns false and raises nothing, whether or not the output file can be removed: the file
  is gone afterwards if it can be removed, and is otherwise what the program left; the call
  is in the history and the captured output is printed on standard error with the program's
  name. And whenever the \<^verbatim>\<open>image\<close> of a worker has run a program that exited with a
  non-zero status, it returns \<^verbatim>\<open>None\<close>, with the output file removed if it can be.
\<close>

theorem nonzero_exit_cleans_up_and_keeps_block:
  "(check_output e args (files w) = (Returned rc out, fs) \<and> rc \<noteq> 0
      \<and> (files w (outfile self) = None \<or> force) \<longrightarrow>
      (\<exists>w'. cmd e force self args w = Inr (False, self, w')
         \<and> files w' = (if can_remove e (outfile self) then fs(outfile self := None) else fs)
         \<and> calls w' = calls w @ [(args, Returned rc out)]
         \<and> stderr w' = stderr w @ [(cls self, [S ''fail:'', L args]),
                                   (cls self, [S '' '', S (prog self), S '':'', S out])]))
   \<and> (worker_image c e self f w = Inr (r, self', w')
        \<and> calls w' = calls w @ [(args, Returned rc out)] \<and> rc \<noteq> 0 \<longrightarrow>
      r = PyNone \<and> (can_remove e (outfile self') \<longrightarrow> files w' (outfile self') = None)
      \<and> last (stderr w') = (cls self, [S '' '', S (prog self), S '':'', S out]))"
proof -
  have "check_output e args (files w) = (Returned rc out, fs) \<and> rc \<noteq> 0
      \<and> (files w (outfile self) = None \<or> force) \<longrightarrow>
      (\<exists>w'. cmd e force self args w = Inr (False, self, w')
         \<and> files w' = (if can_remove e (outfile self) then fs(outfile self := None) else fs)
         \<and> calls w' = calls w @ [(args, Returned rc out)]
         \<and> stderr w' = stderr w @ [(cls self, [S ''fail:'', L args]),
                                   (cls self, [S '' '', S (prog self), S '':'', S out])])"
    using cmd_fail [of w self force e args rc out fs] by blast
  moreover have "worker_image c e self f w = Inr (r, self', w')
        \<and> calls w' = calls w @ [(args, Returned rc out)] \<and> rc \<noteq> 0 \<longrightarrow>
      r = PyNone \<and> (can_remove e (outfile self') \<longrightarrow> files w' (outfile self') = None)
      \<and> last (stderr w') = (cls self, [S '' '', S (prog self), S '':'', S out])"
  proof (intro impI, elim conjE)
    assume a: "worker_image c e self f w = Inr (r, self', w')"
      and b: "calls w' = calls w @ [(args, Returned rc out)]" and c: "rc \<noteq> 0"
    from worker_image_calls [OF a] b c
    show "r = PyNone \<and> (can_remove e (outfile self') \<longrightarrow> files w' (outfile self') = None)
      \<and> last (stderr w') = (cls self, [S '' '', S (prog self), S '':'', S out])"
      by auto
  qed
  ultimately show ?thesis by blast
qed

theorem nonzero_exit_cleans_up_and_keeps_block_witness:
  "(\<exists>fs. check_output env_fail (argv Graphviz dot_handler) (files world0) = (Returned 1 ''boom'', fs)
       \<and> fs (outfile dot_handler) = Some ''partial'')
   \<and> files world0 (outfile dot_handler) = None
   \<and> (\<exists>w'. cmd env_fail False dot_handler (argv Graphviz dot_handler) world0
             = Inr (False, dot_handler, w')
          \<and> files w' (outfile dot_handler) = None)
   \<and> (\<exists>self' w'. worker_image Graphviz env_fail dot_handler ''html'' world0 = Inr (PyNone, self', w')
          \<and> calls w' = calls world0 @ [(argv Graphviz dot_handler, Returned 1 ''boom'')]
          \<and> files w' (outfile self') = None
          \<and> last (stderr w') = (Graphviz, [S '' '', S ''dot'', S '':'', S ''boom'']))"
proof -
  let ?a = "argv Graphviz dot_handler"
  let ?fs = "[out_path env_ok dot_block \<mapsto> ''partial'']"
  have co: "check_output env_fail ?a (files world0) = (Returned 1 ''boom'', ?fs)"
    by (simp add: env_fail_def world0_def dot_handler_def)
  have nf: "files world0 (outfile dot_handler) = None"
    by (simp add: world0_def)
  have rm: "can_remove env_fail (outfile dot_handler)"
    by (simp add: env_fail_def)
  note inst = nonzero_exit_cleans_up_and_keeps_block
    [of env_fail ?a world0 1 "''boom''" ?fs dot_handler False Graphviz "''html''" PyNone dot_handler]
  from inst co nf obtain w2 where w2:
    "cmd env_fail False dot_handler ?a world0 = Inr (False, dot_handler, w2)"
    "files w2 = (if can_remove env_fail (outfile dot_handler)
                 then ?fs(outfile dot_handler := None) else ?fs)"
    "calls w2 = calls world0 @ [(?a, Returned 1 ''boom'')]"
    by auto
  have wi: "worker_image Graphviz env_fail dot_handler ''html'' world0 = Inr (PyNone, dot_handler, w2)"
  proof -
    have "worker_image Graphviz env_fail dot_handler ''html'' world0 =
        (case cmd env_fail False (prepared Graphviz dot_handler ''html'')
                (argv Graphviz (prepared Graphviz dot_handler ''html'')) world0 of
           Inl x \<Rightarrow> Inl x
         | Inr (ok, self1, w1) \<Rightarrow>
             if ok then Inr (fst (on_success Graphviz env_fail self1 w1), self1,
                             snd (on_success Graphviz env_fail self1 w1))
             else Inr (PyNone, self1, w1))"
      by (rule worker_image_eq) simp_all
    moreover have "prepared Graphviz dot_handler ''html'' = dot_handler"
      by (simp add: dot_handler_def)
    ultimately show ?thesis
      using w2(1) by (simp)
  qed
  have fin: "files w2 (outfile dot_handler) = None
      \<and> last (stderr w2) = (Graphviz, [S '' '', S ''dot'', S '':'', S ''boom''])"
    using inst [of w2] wi w2(3) rm by (simp add: dot_handler_def)
  show ?thesis
    using co nf w2 wi fin by (auto simp: dot_handler_def)
qed

subsection \<open>A block from the walker to its replacement\<close>

lemma str_split_empty [simp]: "str_split '''' = []"
  by (simp add: str_split_def)

lemma lower_figlet: "lower ''figlet'' = ''figlet''"
  by (simp add: lower_def lower_char_def)

text \<open>
  C9. A block with the single class \<^verbatim>\<open>figlet\<close>, the code \<^verbatim>\<open>HI\<close>, no options, no
  \<^verbatim>\<open>prog\<close> and no \<^verbatim>\<open>keep\<close>, in a state with no file at its output path: if the
  program \<^verbatim>\<open>figlet\<close> with the one argument \<^verbatim>\<open>HI\<close>, run in the file system the
  constructor leaves, exits with status 0, then the walker gets one code block whose
  attributes are the identity, classes and key-value list of the block and whose code is the
  captured output; that call is the only one made.
\<close>

theorem figlet_end_to_end:
  assumes "last_value kv ''options'' = None \<or> last_value kv ''options'' = Some ''''"
    and "last_value kv ''prog'' = None \<or> last_value kv ''prog'' = Some ''''"
    and "\<not> (\<exists>v. last_value kv ''keep'' = Some v \<and> lower v = ''true'')"
    and "files w (out_path e ((i, [''figlet''], kv), ''HI'')) = None"
    and "check_output e [''figlet'', ''HI'']
           (files (init_world e Figlet ((i, [''figlet''], kv), ''HI'') w)) = (Returned 0 out, fs)"
  shows "\<exists>w'. walker e ''CodeBlock'' ((i, [''figlet''], kv), ''HI'') f w
                = Inr (Element (pf_CodeBlock (i, [''figlet''], kv) out), w')
           \<and> calls w' = calls w @ [([''figlet'', ''HI''], Returned 0 out)]
           \<and> files w' = fs"
proof -
  let ?cb = "((i, [''figlet''], kv), ''HI'')"
  have bc: "by_class [''figlet''] = Some (''figlet'', Figlet)"
    by (simp add: workers_eq lower_figlet)
  from Handler_call_by_class [OF bc, where w = w and kv = kv and e = e and self = Handler_None
      and i = i and src = "''HI''"]
  obtain p w1 where p: "init_prog (w\<lparr>klass := (klass w)(Figlet \<mapsto> lower ''figlet'')\<rparr>) Figlet kv = Some p"
    and hc: "Handler_call e Handler_None ?cb w = Inr (Instance (init_self e Figlet ?cb p), w1)"
    and w1: "files w1 = files (init_world e Figlet ?cb w)" "calls w1 = calls w"
    by (auto simp: init_world_files)
  have pf: "p = ''figlet''"
    using p assms(2) by (auto simp: init_prog_def class_prog_def lower_figlet)
  let ?s = "init_self e Figlet ?cb ''figlet''"
  let ?w2 = "msg Figlet 1 [S ''ok:'', L [''figlet'', ''HI'']]
        (w1\<lparr>files := fs, calls := calls w1 @ [([''figlet'', ''HI''], Returned 0 out)]\<rparr>)"
  have pr: "prepared Figlet ?s f = ?s"
    by simp
  have av: "argv Figlet ?s = [''figlet'', ''HI'']"
    using assms(1) by auto
  have nf: "files w1 (outfile ?s) = None \<or> False"
    using assms(4) by (simp add: w1 init_world_files)
  have co: "check_output e [''figlet'', ''HI''] (files w1) = (Returned 0 out, fs)"
    using assms(5) by (simp add: w1)
  have cm: "cmd e False ?s [''figlet'', ''HI''] w1 = Inr (True, ?s\<lparr>cmd_output := out\<rparr>, ?w2)"
    using cmd_ok [OF nf co] by simp
  have os: "on_success Figlet e (?s\<lparr>cmd_output := out\<rparr>) ?w2
      = (Element (pf_CodeBlock (i, [''figlet''], kv) out), ?w2)"
    using assms(3) by (auto simp: on_success_def CodeBlock_def Let_def split: option.splits)
  have "worker_image Figlet e ?s f w1 =
      (case cmd e False (prepared Figlet ?s f) (argv Figlet (prepared Figlet ?s f)) w1 of
         Inl x \<Rightarrow> Inl x
       | Inr (ok, self1, w2) \<Rightarrow>
           if ok then Inr (fst (on_success Figlet e self1 w2), self1,
                           snd (on_success Figlet e self1 w2))
           else Inr (PyNone, self1, w2))"
    by (rule worker_image_eq) simp_all
  also have "\<dots> = Inr (Element (pf_CodeBlock (i, [''figlet''], kv) out), ?s\<lparr>cmd_output := out\<rparr>, ?w2)"
    by (simp only: pr av cm os sum.case prod.case if_True fst_conv snd_conv)
  finally show ?thesis
    using hc by (simp add: walker_def w1 pf)
qed

theorem figlet_end_to_end_witness:
  "files world0 (out_path env_ok (('''', [''figlet''], []), ''HI'')) = None
   \<and> check_output env_ok [''figlet'', ''HI'']
        (files (init_world env_ok Figlet (('''', [''figlet''], []), ''HI'') world0))
       = (Returned 0 ''art'', [inp_path env_ok (('''', [''figlet''], []), ''HI'') \<mapsto> ''HI''])
   \<and> (\<exists>w'. walker env_ok ''CodeBlock'' (('''', [''figlet''], []), ''HI'') ''html'' world0
             = Inr (Element (pf_CodeBlock ('''', [''figlet''], []) ''art''), w')
          \<and> calls w' = calls world0 @ [([''figlet'', ''HI''], Returned 0 ''art'')]
          \<and> files w' = [inp_path env_ok (('''', [''figlet''], []), ''HI'') \<mapsto> ''HI''])"
proof -
  let ?cb = "(('''', [''figlet''], []), ''HI'')"
  have a: "last_value [] ''options'' = None \<or> last_value [] ''options'' = Some ''''"
    and b: "last_value [] ''prog'' = None \<or> last_value [] ''prog'' = Some ''''"
    and c: "\<not> (\<exists>v. last_value [] ''keep'' = Some v \<and> lower v = ''true'')"
    by (simp_all add: last_value_def)
  have d: "files world0 (out_path env_ok ?cb) = None"
    by (simp add: world0_def)
  have e: "check_output env_ok [''figlet'', ''HI''] (files (init_world env_ok Figlet ?cb world0))
      = (Returned 0 ''art'', [inp_path env_ok ?cb \<mapsto> ''HI''])"
    by (simp add: init_world_files env_ok_def world0_def)
  show ?thesis
    using d e figlet_end_to_end [OF a b c d e, where f = "''html''"]
    by simp
qed

subsection \<open>Keeping the original block\<close>

lemma cmd_self:
  "cmd e force self args w = Inr (ok, self1, w1) \<Longrightarrow>
   self1 = self \<or> (\<exists>out. self1 = self\<lparr>cmd_output := out\<rparr>)"
  by (auto simp: cmd_def Let_def split: if_splits prod.splits proc.splits)

lemma AnonCodeBlock_cmd_output [simp]: "AnonCodeBlock (self\<lparr>cmd_output := out\<rparr>) = AnonCodeBlock self"
  by (simp add: AnonCodeBlock_def)

lemma Url_cmd_output [simp]: "Url (self\<lparr>cmd_output := out\<rparr>) = Url self"
  by (simp add: Url_def)

lemma on_success_fst:
  "fst (on_success c e s w) =
     (if c \<in> {Figlet, Boxes, Protocol} then CodeBlock s (fst (codec s)) (cmd_output s) else Para s)"
  by (simp add: on_success_def)

lemma keep_init_self:
  "keep (init_self e c cb p) =
     (\<exists>v. last_value (snd (snd (fst cb))) ''keep'' = Some v \<and> lower v = ''true'')"
  by (cases "last_value (snd (snd (fst cb))) ''keep''") (simp_all add: lower_def)

text \<open>
  C5, as the code has it. The constructor sets \<^verbatim>\<open>keep\<close> to true exactly when the value
  of the key \<^verbatim>\<open>keep\<close> (the last one, if the key is repeated) is \<^verbatim>\<open>true\<close> in any
  letter case. For every class but \<^verbatim>\<open>Imagine\<close>, an \<^verbatim>\<open>image\<close> that returns a
  replacement returns, with \<^verbatim>\<open>keep\<close> true, the list of the reconstructed original block
  and the artifact, in this order, and otherwise the artifact alone; the artifact is the
  paragraph with the image link or the code block with the captured output.
\<close>

theorem keep_yields_original_then_artifact:
  assumes "Handler_init e c cb w0 = Inr (self, w1)"
  shows "keep self = (\<exists>v. last_value (snd (snd (fst cb))) ''keep'' = Some v \<and> lower v = ''true'')
         \<and> (\<forall>f w r self' w'.
               c \<noteq> Imagine \<and> worker_image c e self f w = Inr (r, self', w') \<and> r \<noteq> PyNone \<longrightarrow>
               (\<exists>art. (art = pf_Para [Url self] \<or> art = pf_CodeBlock (fst cb) (cmd_output self'))
                  \<and> r = (if keep self then Elements [AnonCodeBlock self, art] else Element art)))"
proof -
  from assms obtain p where self: "self = init_self e c cb p"
    using Handler_init_InrD by blast
  have k: "keep self = (\<exists>v. last_value (snd (snd (fst cb))) ''keep'' = Some v \<and> lower v = ''true'')"
    unfolding self by (rule keep_init_self)
  have "\<exists>art. (art = pf_Para [Url self] \<or> art = pf_CodeBlock (fst cb) (cmd_output self'))
          \<and> r = (if keep self then Elements [AnonCodeBlock self, art] else Element art)"
    if ni: "c \<noteq> Imagine" and wi: "worker_image c e self f w = Inr (r, self', w')"
      and r: "r \<noteq> PyNone" for f w r self' w'
  proof -
    have nh: "c \<noteq> Handler"
      using wi r by (auto simp: worker_image_Handler)
    have pl: "c = PlotUtilPlot \<longrightarrow> files w (codetxt self) \<noteq> None"
    proof (intro impI notI)
      assume "c = PlotUtilPlot" and "files w (codetxt self) = None"
      with PlotUtilPlot_missing [of w self e f] wi r show False
        by simp
    qed
    have pr: "prepared c self f = self"
      by (simp add: self)
    have eq: "worker_image c e self f w =
        (case cmd e False self (argv c self) w of
           Inl x \<Rightarrow> Inl x
         | Inr (ok, self1, w1) \<Rightarrow>
             if ok then Inr (fst (on_success c e self1 w1), self1, snd (on_success c e self1 w1))
             else Inr (PyNone, self1, w1))"
      using worker_image_eq [OF nh ni pl, of e f] by (simp only: pr)
    show ?thesis
    proof (cases "cmd e False self (argv c self) w")
      case (Inl x)
      with eq wi show ?thesis by simp
    next
      case (Inr t)
      then obtain ok self1 w2 where cm: "cmd e False self (argv c self) w = Inr (ok, self1, w2)"
        by (cases t) auto
      have ok: "ok"
        using eq wi r cm by (cases ok) simp_all
      have res: "r = fst (on_success c e self1 w2)" "self' = self1"
        using eq wi cm ok by simp_all
      from cmd_self [OF cm] have "self1 = self \<or> (\<exists>out. self1 = self\<lparr>cmd_output := out\<rparr>)" .
      then show ?thesis
      proof
        assume "self1 = self"
        then show ?thesis
          unfolding res on_success_fst
          by (simp add: Para_def CodeBlock_def Let_def self)
      next
        assume "\<exists>out. self1 = self\<lparr>cmd_output := out\<rparr>"
        then obtain out where "self1 = self\<lparr>cmd_output := out\<rparr>" ..
        then show ?thesis
          unfolding res on_success_fst
          by (simp add: Para_def CodeBlock_def Let_def self)
      qed
    qed
  qed
  with k show ?thesis by blast
qed

theorem keep_yields_original_then_artifact_witness:
  "Handler_init env_ok Figlet figlet_keep_block world_figlet
     = Inr (figlet_keep_handler, init_world env_ok Figlet figlet_keep_block world_figlet)
   \<and> last_value (snd (snd (fst figlet_keep_block))) ''keep'' = Some ''True''
   \<and> keep figlet_keep_handler
   \<and> worker_image Figlet env_ok figlet_keep_handler ''html'' world0
       = Inr (Elements [AnonCodeBlock figlet_keep_handler,
                        pf_CodeBlock (''fig1'', [''figlet''], [(''keep'', ''True'')]) ''art''],
              figlet_keep_handler\<lparr>cmd_output := ''art''\<rparr>,
              msg Figlet 1 [S ''ok:'', L [''figlet'', ''HI'']]
                (world0\<lparr>files := Map.empty, calls := [([''figlet'', ''HI''], Returned 0 ''art'')]\<rparr>))
   \<and> AnonCodeBlock figlet_keep_handler
       = pf_CodeBlock ('''', [], [])
           (replicate 3 (CHR 0x60) @ ''{#fig1 .figlet keep='' @ [CHR 0x22] @ ''True'' @ [CHR 0x22]
            @ ''}'' @ [CHR 0x0A] @ ''HI'' @ [CHR 0x0A] @ replicate 3 (CHR 0x60))"
proof -
  let ?s = figlet_keep_handler
  let ?w2 = "msg Figlet 1 [S ''ok:'', L [''figlet'', ''HI'']]
      (world0\<lparr>files := Map.empty, calls := [([''figlet'', ''HI''], Returned 0 ''art'')]\<rparr>)"
  have a: "Handler_init env_ok Figlet figlet_keep_block world_figlet
      = Inr (figlet_keep_handler, init_world env_ok Figlet figlet_keep_block world_figlet)"
    by (simp add: Handler_init_eq init_prog_def class_prog_def figlet_keep_block_def
        world_figlet_def world0_def last_value_def figlet_keep_handler_def)
  note inst = keep_yields_original_then_artifact [OF a]
  have lv: "last_value (snd (snd (fst figlet_keep_block))) ''keep'' = Some ''True''"
    by (simp add: figlet_keep_block_def last_value_def)
  have k: "keep ?s"
    using inst lv by (simp add: lower_def lower_char_def)
  have pr: "prepared Figlet ?s ''html'' = ?s"
    by (simp add: figlet_keep_handler_def)
  have av: "argv Figlet ?s = [''figlet'', ''HI'']"
    by (simp add: figlet_keep_handler_def figlet_keep_block_def last_value_def)
  have cm: "cmd env_ok False ?s [''figlet'', ''HI''] world0
      = Inr (True, ?s\<lparr>cmd_output := ''art''\<rparr>, ?w2)"
    by (simp add: cmd_ok env_ok_def world0_def figlet_keep_handler_def)
  have os: "on_success Figlet env_ok (?s\<lparr>cmd_output := ''art''\<rparr>) ?w2
      = (Elements [AnonCodeBlock ?s,
                   pf_CodeBlock (''fig1'', [''figlet''], [(''keep'', ''True'')]) ''art''], ?w2)"
    using k by (simp add: on_success_def CodeBlock_def Let_def)
      (simp add: figlet_keep_handler_def figlet_keep_block_def)
  have "worker_image Figlet env_ok ?s ''html'' world0 =
      (case cmd env_ok False (prepared Figlet ?s ''html'')
              (argv Figlet (prepared Figlet ?s ''html'')) world0 of
         Inl x \<Rightarrow> Inl x
       | Inr (ok, self1, w2) \<Rightarrow>
           if ok then Inr (fst (on_success Figlet env_ok self1 w2), self1,
                           snd (on_success Figlet env_ok self1 w2))
           else Inr (PyNone, self1, w2))"
    by (rule worker_image_eq) simp_all
  also have "\<dots> = Inr (Elements [AnonCodeBlock ?s,
                   pf_CodeBlock (''fig1'', [''figlet''], [(''keep'', ''True'')]) ''art''],
              ?s\<lparr>cmd_output := ''art''\<rparr>, ?w2)"
    by (simp only: pr av cm os sum.case prod.case if_True fst_conv snd_conv)
  finally have wi: "worker_image Figlet env_ok ?s ''html'' world0
      = Inr (Elements [AnonCodeBlock ?s,
                       pf_CodeBlock (''fig1'', [''figlet''], [(''keep'', ''True'')]) ''art''],
             ?s\<lparr>cmd_output := ''art''\<rparr>, ?w2)" .
  have an: "AnonCodeBlock ?s
      = pf_CodeBlock ('''', [], [])
          (replicate 3 (CHR 0x60) @ ''{#fig1 .figlet keep='' @ [CHR 0x22] @ ''True'' @ [CHR 0x22]
           @ ''}'' @ [CHR 0x0A] @ ''HI'' @ [CHR 0x0A] @ replicate 3 (CHR 0x60))"
    by (simp add: AnonCodeBlock_def figlet_keep_handler_def figlet_keep_block_def Let_def)
  show ?thesis
    using a lv k wi an by simp
qed

text \<open>
  The claim fails as stated for the class \<^verbatim>\<open>Imagine\<close>: its \<^verbatim>\<open>image\<close> builds the help
  block with \<^verbatim>\<open>pf.CodeBlock\<close> and returns this one element, whatever \<^verbatim>\<open>keep\<close> is.
\<close>

theorem imagine_ignores_keep:
  "(\<exists>w1. Handler_call env_ok Handler_None imagine_keep_block world0
            = Inr (Instance imagine_keep_handler, w1))
   \<and> keep imagine_keep_handler
   \<and> (\<exists>w'. walker env_ok ''CodeBlock'' imagine_keep_block ''html'' world0
             = Inr (Element (pf_CodeBlock ('''', [''imagine''], []) (doc env_ok)), w'))"
proof -
  have bc: "by_class [''imagine''] = Some (''imagine'', Imagine)"
    by (simp add: workers_eq lower_def lower_char_def)
  from Handler_call_by_class [OF bc, where w = world0 and kv = "[(''keep'', ''true'')]"
      and e = env_ok and self = Handler_None and i = "''''" and src = "''''"]
  obtain p w1 where p: "init_prog (world0\<lparr>klass := (klass world0)(Imagine \<mapsto> lower ''imagine'')\<rparr>)
        Imagine [(''keep'', ''true'')] = Some p"
    and hc: "Handler_call env_ok Handler_None (('''', [''imagine''], [(''keep'', ''true'')]), '''') world0
        = Inr (Instance (init_self env_ok Imagine
                 (('''', [''imagine''], [(''keep'', ''true'')]), '''') p), w1)"
    by auto
  have "p = ''imagine''"
    using p by (simp add: init_prog_def class_prog_def last_value_def lower_def lower_char_def)
  with hc have hc': "Handler_call env_ok Handler_None imagine_keep_block world0
      = Inr (Instance imagine_keep_handler, w1)"
    by (simp add: imagine_keep_block_def imagine_keep_handler_def)
  have k: "keep imagine_keep_handler"
    by (simp add: imagine_keep_handler_def imagine_keep_block_def last_value_def lower_def
        lower_char_def)
  have "walker env_ok ''CodeBlock'' imagine_keep_block ''html'' world0
      = Inr (Element (pf_CodeBlock ('''', [''imagine''], []) (doc env_ok)), w1)"
    using hc' by (simp add: walker_def worker_image_Imagine imagine_keep_handler_def)
  with hc' k show ?thesis by blast
qed

subsection \<open>Two runs on one block\<close>

lemma last_value_Nil [simp]: "last_value [] key = None"
  by (simp add: last_value_def)

lemma Handler_call_target_None:
  assumes "target cb = None"
  shows "Handler_call e Handler_None cb w = Inr (Handler_None, w)"
proof -
  obtain i cs kv src where cb: "cb = ((i, cs, kv), src)"
    by (metis surj_pair)
  have bc: "by_class cs = None"
  proof (cases "by_class cs")
    case None
    then show ?thesis .
  next
    case (Some a)
    obtain t wk where a: "a = (t, wk)" by (cases a)
    from Some a have "workers (lower t) = Some wk"
      using by_class_SomeD by simp
    then obtain q where "map_of (codecs wk) (lower t) = Some q"
      using workers_codecs by blast
    with assms Some a show ?thesis
      by (simp add: target_def cb split: option.splits if_splits)
  qed
  have "kv = [] \<or>
      workers (lower (case last_value kv ''prog'' of Some p \<Rightarrow> p | None \<Rightarrow> '''')) = None"
    using assms bc by (simp add: target_def cb workers_empty_key split: option.splits)
  from Handler_call_default [OF bc this, of e Handler_None i src w]
  show ?thesis
    by (simp add: cb msg_quiet)
qed

lemma Handler_call_target_Some:
  assumes "target cb = Some (c, p)"
  shows "\<exists>w'. Handler_call e Handler_None cb w = Inr (Instance (init_self e c cb p), w')
           \<and> files w' = files (init_world e c cb w) \<and> calls w' = calls w"
proof -
  obtain i cs kv src where cb: "cb = ((i, cs, kv), src)"
    by (metis surj_pair)
  show ?thesis
  proof (cases "by_class cs")
    case (Some a)
    obtain t wk where a: "a = (t, wk)" by (cases a)
    have bc: "by_class cs = Some (t, wk)"
      using Some a by simp
    from Handler_call_by_class [OF bc, where w = w and kv = kv and e = e and self = Handler_None
        and i = i and src = src]
    obtain p' w' where p': "init_prog (w\<lparr>klass := (klass w)(wk \<mapsto> lower t)\<rparr>) wk kv = Some p'"
      and hc: "Handler_call e Handler_None cb w = Inr (Instance (init_self e wk cb p'), w')"
      and w': "files w' = files (init_world e wk cb w)" "calls w' = calls w"
      by (auto simp: cb init_world_files)
    have "c = wk \<and> p = p'"
      using assms bc p'
      by (auto simp: target_def cb init_prog_def class_prog_def split: option.splits if_splits)
    with hc w' show ?thesis by auto
  next
    case None
    from assms None obtain lp: "last_value kv ''prog'' = Some p" and wk: "workers (lower p) = Some c"
      by (auto simp: target_def cb split: option.splits)
    have ne: "kv \<noteq> []"
      using lp by auto
    from Handler_call_by_prog [OF None ne lp wk, of e Handler_None i src w]
    show ?thesis
      by (simp add: cb init_world_files)
  qed
qed

lemma walker_target_None:
  "target cb = None \<Longrightarrow> walker e ''CodeBlock'' cb f w = Inr (PyNone, w)"
  by (simp add: walker_def Handler_call_target_None Handler_image_def msg_quiet)

lemma walker_target_Some:
  assumes "target cb = Some (c, p)"
  shows "\<exists>w'. files w' = files (init_world e c cb w) \<and> calls w' = calls w
           \<and> walker e ''CodeBlock'' cb f w =
               (case worker_image c e (init_self e c cb p) f w' of
                  Inl x \<Rightarrow> Inl x
                | Inr (r, s, w2) \<Rightarrow> Inr (r, w2))"
proof -
  from Handler_call_target_Some [OF assms, of e w]
  obtain w' where hc: "Handler_call e Handler_None cb w = Inr (Instance (init_self e c cb p), w')"
    and w': "files w' = files (init_world e c cb w)" "calls w' = calls w"
    by blast
  have "walker e ''CodeBlock'' cb f w =
      (case worker_image c e (init_self e c cb p) f w' of
         Inl x \<Rightarrow> Inl x
       | Inr (r, s, w2) \<Rightarrow> Inr (r, w2))"
    by (cases "worker_image c e (init_self e c cb p) f w'") (auto simp: walker_def hc)
  with w' show ?thesis by blast
qed

lemma inp_png_neq [simp]:
  "inp_path e cb @ ''.png'' \<noteq> out_path e cb" "inp_path e cb @ ''.png'' \<noteq> inp_path e cb"
  by (simp_all add: inp_path_def out_path_def)

text \<open>With a file at the output path, \<^verbatim>\<open>image\<close> runs nothing and changes no file.\<close>

lemma image_hit:
  assumes "files w (out_path e cb) \<noteq> None"
    and "c = Mermaid \<longrightarrow> files w (inp_path e cb @ ''.png'') = None"
  shows "\<exists>r s w'. worker_image c e (init_self e c cb p) f w = Inr (r, s, w')
           \<and> calls w' = calls w \<and> files w' = files w"
proof -
  let ?s = "init_self e c cb p"
  consider (plain) "c = Handler \<or> c = Imagine \<or> (c = PlotUtilPlot \<and> files w (codetxt ?s) = None)"
    | (runs) "c \<noteq> Handler" "c \<noteq> Imagine" "c = PlotUtilPlot \<longrightarrow> files w (codetxt ?s) \<noteq> None"
    by blast
  then show ?thesis
  proof cases
    case plain
    then show ?thesis
      using PlotUtilPlot_missing [of w ?s e f]
      by (auto simp: worker_image_Handler worker_image_Imagine)
  next
    case runs
    have ex: "files w (outfile (prepared c ?s f)) \<noteq> None"
      using assms(1) by simp
    have "worker_image c e ?s f w =
        Inr (fst (on_success c e ?s (msg c 1 [S ''exists:'', L (argv c ?s)] w)), ?s,
             snd (on_success c e ?s (msg c 1 [S ''exists:'', L (argv c ?s)] w)))"
      using ex by (simp add: worker_image_eq [OF runs] cmd_hit)
    moreover have "files (snd (on_success c e ?s w2)) = files w2"
      if "files w2 = files w" for w2
      using assms(2) that
      by (auto simp: on_success_def Handler_write_files os_rename_def)
    ultimately show ?thesis by simp
  qed
qed

text \<open>After a \<^verbatim>\<open>mermaid\<close> run that returned a replacement, nothing is left to rename.\<close>

lemma mermaid_renamed:
  assumes "worker_image Mermaid e (init_self e Mermaid cb p) f w = Inr (r, s, w')"
    and "r \<noteq> PyNone"
  shows "files w' (inp_path e cb @ ''.png'') = None"
proof -
  let ?s = "init_self e Mermaid cb p"
  have eq: "worker_image Mermaid e ?s f w =
      (case cmd e False ?s (argv Mermaid ?s) w of
         Inl x \<Rightarrow> Inl x
       | Inr (ok, self1, w1) \<Rightarrow>
           if ok then Inr (fst (on_success Mermaid e self1 w1), self1,
                           snd (on_success Mermaid e self1 w1))
           else Inr (PyNone, self1, w1))"
    using worker_image_eq [of Mermaid w ?s e f] by simp
  show ?thesis
  proof (cases "cmd e False ?s (argv Mermaid ?s) w")
    case (Inl x)
    with eq assms show ?thesis by simp
  next
    case (Inr t)
    then obtain ok self1 w1 where cm: "cmd e False ?s (argv Mermaid ?s) w = Inr (ok, self1, w1)"
      by (cases t) auto
    have ok: "ok"
      using eq assms cm by (cases ok) simp_all
    have w': "w' = snd (on_success Mermaid e self1 w1)"
      using eq assms cm ok by simp
    from cmd_self [OF cm] have "inpfile self1 = inp_path e cb \<and> outfile self1 = out_path e cb
        \<and> fext self1 = ''png''"
      by auto
    then show ?thesis
      unfolding w' by (auto simp: on_success_def os_rename_def split: option.splits)
  qed
qed

text \<open>
  A run of a worker that runs a program, with no file at the output path and a program that
  exits with status 0: the program is run once, and the method goes on from the files as the
  program left them.
\<close>

lemma walker_run_ok:
  assumes "c \<notin> {Handler, Imagine, PlotUtilPlot}" and "target cb = Some (c, p)"
    and "files w (out_path e cb) = None"
    and "check_output e (argv c (init_self e c cb p)) (files (init_world e c cb w))
           = (Returned 0 out, fs)"
  shows "\<exists>r w' w2. walker e ''CodeBlock'' cb f w = Inr (r, w') \<and> r \<noteq> PyNone
           \<and> calls w' = calls w @ [(argv c (init_self e c cb p), Returned 0 out)]
           \<and> files w2 = fs
           \<and> w' = snd (on_success c e ((init_self e c cb p)\<lparr>cmd_output := out\<rparr>) w2)"
proof -
  let ?s = "init_self e c cb p"
  from walker_target_Some [OF assms(2), of e w f]
  obtain w1 where w1: "files w1 = files (init_world e c cb w)" "calls w1 = calls w"
    and wk: "walker e ''CodeBlock'' cb f w =
        (case worker_image c e ?s f w1 of Inl x \<Rightarrow> Inl x | Inr (r, s, w2) \<Rightarrow> Inr (r, w2))"
    by blast
  have c: "c \<noteq> Handler" "c \<noteq> Imagine" "c = PlotUtilPlot \<longrightarrow> files w1 (codetxt ?s) \<noteq> None"
    using assms(1) by auto
  have nf: "files w1 (outfile ?s) = None \<or> False"
    using assms(3) by (simp add: w1 init_world_files)
  have co: "check_output e (argv c ?s) (files w1) = (Returned 0 out, fs)"
    using assms(4) by (simp add: w1)
  let ?w2 = "msg (cls ?s) 1 [S ''ok:'', L (argv c ?s)]
      (w1\<lparr>files := fs, calls := calls w1 @ [(argv c ?s, Returned 0 out)]\<rparr>)"
  have cm: "cmd e False ?s (argv c ?s) w1 = Inr (True, ?s\<lparr>cmd_output := out\<rparr>, ?w2)"
    using cmd_ok [OF nf co] .
  have "worker_image c e ?s f w1 =
      Inr (fst (on_success c e (?s\<lparr>cmd_output := out\<rparr>) ?w2), ?s\<lparr>cmd_output := out\<rparr>,
           snd (on_success c e (?s\<lparr>cmd_output := out\<rparr>) ?w2))"
    using worker_image_eq [OF c, of e f] cm by simp
  then have "walker e ''CodeBlock'' cb f w =
      Inr (fst (on_success c e (?s\<lparr>cmd_output := out\<rparr>) ?w2),
           snd (on_success c e (?s\<lparr>cmd_output := out\<rparr>) ?w2))"
    using wk by simp
  moreover have "calls (snd (on_success c e (?s\<lparr>cmd_output := out\<rparr>) ?w2))
      = calls w @ [(argv c ?s, Returned 0 out)]"
    by (simp add: w1)
  moreover have "files ?w2 = fs"
    by simp
  ultimately show ?thesis
    using on_success_not_None by blast
qed




subsection \<open>The cache paths\<close>

lemma hexchar_inj: "i < 16 \<Longrightarrow> j < 16 \<Longrightarrow> hexchar i = hexchar j \<Longrightarrow> i = j"
proof -
  assume i: "i < 16" and j: "j < 16" and eq: "hexchar i = hexchar j"
  have d: "distinct ''0123456789abcdef''"
    by simp
  have "(''0123456789abcdef'' ! i = ''0123456789abcdef'' ! j) = (i = j)"
    using i j by (intro nth_eq_iff_index_eq [OF d]) simp_all
  with eq show ?thesis
    by (simp add: hexchar_def)
qed

lemma nibble_less: "unat (take_bit 4 (w :: 160 word)) < 16"
proof -
  have "unat (take_bit 4 w) = take_bit 4 (unat w)"
    by (simp add: unsigned_take_bit_eq)
  also have "\<dots> < 2 ^ 4"
    by (rule take_bit_nat_less_exp)
  finally show ?thesis by simp
qed

lemma hexdigest_inj: "hexdigest d = hexdigest d' \<Longrightarrow> d = d'"
proof -
  assume eq: "hexdigest d = hexdigest d'"
  have nib: "take_bit 4 (drop_bit (4 * (39 - i)) d) = take_bit 4 (drop_bit (4 * (39 - i)) d')"
    if "i < 40" for i
  proof -
    from eq have "hexdigest d ! i = hexdigest d' ! i"
      by simp
    with that have "hexchar (unat (take_bit 4 (drop_bit (4 * (39 - i)) d)))
        = hexchar (unat (take_bit 4 (drop_bit (4 * (39 - i)) d')))"
      by (simp add: hexdigest_def)
    then have "unat (take_bit 4 (drop_bit (4 * (39 - i)) d))
        = unat (take_bit 4 (drop_bit (4 * (39 - i)) d'))"
      by (rule hexchar_inj [OF nibble_less nibble_less])
    then show ?thesis
      by (simp add: word_unat_eq_iff)
  qed
  show "d = d'"
  proof (rule bit_word_eqI)
    fix n
    assume "n < LENGTH(160)"
    then have n: "n < 160"
      by simp
    define i where "i = 39 - n div 4"
    have i: "i < 40" and k: "4 * (39 - i) = 4 * (n div 4)"
      using n by (simp_all add: i_def)
    have "bit (take_bit 4 (drop_bit (4 * (39 - i)) d)) (n mod 4)
        = bit (take_bit 4 (drop_bit (4 * (39 - i)) d')) (n mod 4)"
      using nib [OF i] by simp
    then show "bit d n = bit d' n"
      by (simp add: k bit_take_bit_iff bit_drop_bit_eq)
  qed
qed

lemma base_path_eq_iff:
  "(base_path e cb1 = base_path e cb2) = (sha1 e (py_str e cb1) = sha1 e (py_str e cb2))"
  using hexdigest_inj by (auto simp: base_path_def get_filename4code_def)




end
